theory Spec2Isabelle
  imports Complex_Main "HOL-Library.Sublist"
begin

section \<open>Python values used by the relay\<close>

text \<open>
  Python dictionaries keep their keys in insertion order, and both the aggregation result
  and the symbol cache are iterated in that order. A dictionary is therefore an association
  list with one pair per key: \<open>d[k] = v\<close> overwrites the value in place when the key is
  present and appends the pair otherwise.
\<close>

type_synonym ('k, 'v) dict = "('k \<times> 'v) list"

fun dict_get :: "('k, 'v) dict \<Rightarrow> 'k \<Rightarrow> 'v option" where
  "dict_get [] k = None"
| "dict_get ((k', v) # d) k = (if k' = k then Some v else dict_get d k)"

fun dict_set :: "('k, 'v) dict \<Rightarrow> 'k \<Rightarrow> 'v \<Rightarrow> ('k, 'v) dict" where
  "dict_set [] k v = [(k, v)]"
| "dict_set ((k', v') # d) k v = (if k' = k then (k, v) # d else (k', v') # dict_set d k v)"

text \<open>The exceptions the modelled code can raise.\<close>

datatype py_error =
    UnboundLocalError string
  | JSONDecodeError
  | AttributeError
  | TypeError
  | ConnectionClosed
  | OtherException

text \<open>What \<open>json.loads\<close> returns. The decoder itself is a parameter of the functions that
  call it: it yields \<open>None\<close> where \<open>json.loads\<close> raises \<open>JSONDecodeError\<close>.\<close>

datatype json =
    JNull
  | JBool bool
  | JInt int
  | JFloat real
  | JString string
  | JArray "json list"
  | JObject "(string, json) dict"

text \<open>\<open>data.get(key, dflt)\<close>: an attribute error unless \<open>data\<close> is a dictionary.\<close>

definition json_get :: "json \<Rightarrow> string \<Rightarrow> json \<Rightarrow> py_error + json" where
  "json_get data key dflt =
     (case data of
        JObject kvs \<Rightarrow> Inr (case dict_get kvs key of None \<Rightarrow> dflt | Some v \<Rightarrow> v)
      | _ \<Rightarrow> Inl AttributeError)"

section \<open>Tick aggregation (\<open>aggregate_ticks\<close> in main.py and main_v2.py)\<close>

text \<open>
  Times and prices are Python floats. The aggregation only subtracts and compares two
  times and only uses a price as a dictionary key, so both are modelled as real numbers.
  Quantities and volumes are Python integers.
\<close>

record tick =
  price :: real
  quantity :: int
  side :: string
  tick_timestamp :: real

record aggregated_tick =
  total_volume :: int
  buy_volume :: int
  sell_volume :: int
  trade_count :: int
  timestamp :: real

text \<open>The message \<open>{"type": "aggregated_trades", "data": ..., "timestamp": ...}\<close>.\<close>

datatype aggregated_trades_msg =
  AggregatedTrades "(real, aggregated_tick) dict" real

definition new_entry :: "real \<Rightarrow> aggregated_tick" where
  "new_entry ts =
     \<lparr>total_volume = 0, buy_volume = 0, sell_volume = 0, trade_count = 0, timestamp = ts\<rparr>"

text \<open>The entry the loop body works on: the one stored under the price, or a fresh one.\<close>

definition entry_at :: "real \<Rightarrow> (real, aggregated_tick) dict \<Rightarrow> real \<Rightarrow> aggregated_tick" where
  "entry_at ts aggregated_trades p =
     (case dict_get aggregated_trades p of None \<Rightarrow> new_entry ts | Some e \<Rightarrow> e)"

text \<open>One iteration of the loop of main.py: the side decides buy or sell.\<close>

definition add_tick ::
  "real \<Rightarrow> (real, aggregated_tick) dict \<Rightarrow> tick \<Rightarrow> (real, aggregated_tick) dict" where
  "add_tick current_time aggregated_trades t =
     (let e = entry_at current_time aggregated_trades (price t);
          e1 = e\<lparr>total_volume := total_volume e + quantity t,
                 trade_count := trade_count e + 1\<rparr>;
          e2 = (if side t = ''buy''
                then e1\<lparr>buy_volume := buy_volume e1 + quantity t\<rparr>
                else e1\<lparr>sell_volume := sell_volume e1 + quantity t\<rparr>)
      in dict_set aggregated_trades (price t) e2)"

record aggregator =
  tick_buffer :: "tick list"
  last_aggregation_time :: real

text \<open>
  \<open>aggregate_ticks\<close> of main.py. The result is the new global state and the message handed
  to \<open>broadcast_to_clients\<close>, if any.
\<close>

definition aggregate_ticks :: "real \<Rightarrow> aggregator \<Rightarrow> aggregator \<times> aggregated_trades_msg option" where
  "aggregate_ticks current_time st =
     (if current_time - last_aggregation_time st < 1 / 10 then (st, None)
      else
        let aggregated_trades = foldl (add_tick current_time) [] (tick_buffer st);
            st' = st\<lparr>tick_buffer := [], last_aggregation_time := current_time\<rparr>
        in (st', if aggregated_trades \<noteq> []
                 then Some (AggregatedTrades aggregated_trades current_time)
                 else None))"

text \<open>
  main_v2.py buffers the dictionaries built by the feed handler and reads them with
  \<open>tick.get(key, default)\<close>; a missing key is \<open>None\<close> here. The side is never read.
\<close>

record tick_v2 =
  price_v2 :: "real option"
  quantity_v2 :: "int option"
  timestamp_v2 :: "real option"

definition get_default :: "'a option \<Rightarrow> 'a \<Rightarrow> 'a" where
  "get_default field dflt = (case field of None \<Rightarrow> dflt | Some v \<Rightarrow> v)"

definition add_tick_v2 ::
  "real \<Rightarrow> (real, aggregated_tick) dict \<Rightarrow> tick_v2 \<Rightarrow> (real, aggregated_tick) dict" where
  "add_tick_v2 current_time aggregated_trades t =
     (let p = get_default (price_v2 t) 0;
          q = get_default (quantity_v2 t) 0;
          ts = get_default (timestamp_v2 t) current_time;
          e = entry_at ts aggregated_trades p;
          e1 = e\<lparr>total_volume := total_volume e + q, trade_count := trade_count e + 1\<rparr>;
          e2 = e1\<lparr>buy_volume := buy_volume e1 + q div 2\<rparr>;
          e3 = e2\<lparr>sell_volume := sell_volume e2 + (q - q div 2)\<rparr>
      in dict_set aggregated_trades p e3)"

record aggregator_v2 =
  tick_buffer_v2 :: "tick_v2 list"
  last_aggregation_time_v2 :: real

definition aggregate_ticks_v2 ::
  "real \<Rightarrow> aggregator_v2 \<Rightarrow> aggregator_v2 \<times> aggregated_trades_msg option" where
  "aggregate_ticks_v2 current_time st =
     (if current_time - last_aggregation_time_v2 st < 1 / 10 then (st, None)
      else if tick_buffer_v2 st = [] then (st, None)
      else
        let aggregated_trades = foldl (add_tick_v2 current_time) [] (tick_buffer_v2 st);
            st' = st\<lparr>tick_buffer_v2 := [], last_aggregation_time_v2 := current_time\<rparr>
        in (st', if aggregated_trades \<noteq> []
                 then Some (AggregatedTrades aggregated_trades current_time)
                 else None))"

text \<open>Sums over the emitted dictionary and over the buffered ticks.\<close>

definition volume_sum :: "(real, aggregated_tick) dict \<Rightarrow> int" where
  "volume_sum d = sum_list (map (\<lambda>(p, e). total_volume e) d)"

definition balanced :: "(real, aggregated_tick) dict \<Rightarrow> bool" where
  "balanced d = list_all (\<lambda>(p, e). buy_volume e + sell_volume e = total_volume e) d"

text \<open>
  What one loop iteration adds to the buy and to the sell volume stored under price \<open>p\<close>:
  the difference between the entry after and before it (an absent entry counts as zero).
\<close>

definition buy_contribution ::
  "real \<Rightarrow> (real, aggregated_tick) dict \<Rightarrow> (real, aggregated_tick) dict \<Rightarrow> real \<Rightarrow> int" where
  "buy_contribution ts d d' p = buy_volume (entry_at ts d' p) - buy_volume (entry_at ts d p)"

definition sell_contribution ::
  "real \<Rightarrow> (real, aggregated_tick) dict \<Rightarrow> (real, aggregated_tick) dict \<Rightarrow> real \<Rightarrow> int" where
  "sell_contribution ts d d' p = sell_volume (entry_at ts d' p) - sell_volume (entry_at ts d p)"

section \<open>Broadcast to the viewers (\<open>broadcast_to_clients\<close> in main.py and main_v2.py)\<close>

text \<open>
  A viewer session is a WebSocket object, compared by identity: a number here. The module
  global \<open>connected_clients\<close> is a set: a list without repetitions, in the order the loop
  visits it. \<open>send_ok client\<close> tells whether \<open>client.send_text\<close> returns or raises.

  Python fixes at compile time where a function looks a name up. A name that the body
  assigns, also by an augmented assignment such as \<open>-=\<close>, is a local variable of the
  function unless a \<open>global\<close> statement of the function names it; reading a local variable
  that has not been assigned yet raises \<open>UnboundLocalError\<close>.
\<close>

type_synonym websocket = nat

datatype scope = LocalName | GlobalName

definition name_scope :: "string list \<Rightarrow> string list \<Rightarrow> string \<Rightarrow> scope" where
  "name_scope assigned declared_global x =
     (if x \<in> set assigned \<and> x \<notin> set declared_global then LocalName else GlobalName)"

text \<open>
  The names the body of \<open>broadcast_to_clients\<close> assigns (its last line is
  \<open>connected_clients -= disconnected_clients\<close>), and its \<open>global\<close> statements: none, in
  both files.
\<close>

definition broadcast_assigned :: "string list" where
  "broadcast_assigned =
     [''message_str'', ''disconnected_clients'', ''client'', ''e'', ''connected_clients'']"

definition broadcast_declared_global :: "string list" where
  "broadcast_declared_global = []"

text \<open>
  The statements of the body, given what the name \<open>connected_clients\<close> holds when the first
  line reads it (\<open>None\<close>: an unassigned local variable). The result is the list of the
  clients the message was delivered to and the set the last line leaves in
  \<open>connected_clients\<close>.
\<close>

definition broadcast_body ::
  "(websocket \<Rightarrow> bool) \<Rightarrow> websocket list option \<Rightarrow> py_error + (websocket list \<times> websocket list)" where
  "broadcast_body send_ok binding =
     (case binding of
        None \<Rightarrow> Inl (UnboundLocalError ''connected_clients'')
      | Some clients \<Rightarrow>
          if clients = [] then Inr ([], clients)
          else
            let disconnected_clients = filter (\<lambda>client. \<not> send_ok client) clients
            in Inr (filter send_ok clients,
                    filter (\<lambda>client. client \<notin> set disconnected_clients) clients))"

text \<open>
  The function as Python runs it. The second component of a result is the module global
  \<open>connected_clients\<close> after the call; an exception leaves it as it was.
\<close>

definition broadcast_to_clients ::
  "(websocket \<Rightarrow> bool) \<Rightarrow> websocket list \<Rightarrow> py_error + (websocket list \<times> websocket list)" where
  "broadcast_to_clients send_ok connected_clients =
     (case name_scope broadcast_assigned broadcast_declared_global ''connected_clients'' of
        LocalName \<Rightarrow>
          (case broadcast_body send_ok None of
             Inl e \<Rightarrow> Inl e
           | Inr (delivered, local_clients) \<Rightarrow> Inr (delivered, connected_clients))
      | GlobalName \<Rightarrow> broadcast_body send_ok (Some connected_clients))"

section \<open>The upstream feed client (\<open>DhanWebSocketClient\<close> in main.py)\<close>

text \<open>
  What the client does to the outside world is recorded in a trace: the sleeps, the
  subscribe message and the log lines. \<open>LogReconnecting wait_time attempt\<close> is the line
  "Reconnecting in \<open>wait_time\<close> seconds... (attempt \<open>attempt\<close>)".
\<close>

datatype event =
    Sleep nat
  | SendSubscribe
  | LogInfo string
  | LogReconnecting nat nat
  | LogWarning string
  | LogError string
  | LogDebug string

record feed_client =
  connected :: bool
  reconnect_attempts :: nat
  max_reconnect_attempts :: nat
  trace :: "event list"

text \<open>\<open>__init__\<close>.\<close>

definition init_client :: feed_client where
  "init_client =
     \<lparr>connected = False, reconnect_attempts = 0, max_reconnect_attempts = 5, trace = []\<rparr>"

definition emit :: "event \<Rightarrow> feed_client \<Rightarrow> feed_client" where
  "emit ev c = c\<lparr>trace := trace c @ [ev]\<rparr>"

text \<open>
  The network decides how a call of \<open>connect\<close> goes: \<open>websockets.connect\<close> raises, or it
  returns and the subscription then finds no symbol information, sends its message, or
  raises in \<open>websocket.send\<close>. A run of the client is driven by the list of these outcomes,
  one per call of \<open>connect\<close>.
\<close>

datatype subscribe_outcome = UnknownSymbol | SendOk | SendRaises

datatype connect_outcome = ConnectRaises | ConnectOk subscribe_outcome

definition subscribe_market_depth ::
  "subscribe_outcome \<Rightarrow> feed_client \<Rightarrow> py_error + feed_client" where
  "subscribe_market_depth out c =
     (if \<not> connected c then Inr c
      else case out of
          UnknownSymbol \<Rightarrow> Inr (emit (LogError ''Unknown symbol'') c)
        | SendRaises \<Rightarrow> Inl ConnectionClosed
        | SendOk \<Rightarrow> Inr (emit (LogInfo ''Subscribed to market depth'') (emit SendSubscribe c)))"

text \<open>
  \<open>connect\<close> and \<open>handle_reconnect\<close> call each other. The result is \<open>None\<close> when the list of
  outcomes ends before the run does, that is, when the run waits for the network.
\<close>

function connect :: "connect_outcome list \<Rightarrow> feed_client \<Rightarrow> feed_client option"
  and handle_reconnect :: "connect_outcome list \<Rightarrow> feed_client \<Rightarrow> feed_client option" where
  "connect [] c = None"
| "connect (ConnectRaises # outs) c =
     handle_reconnect outs
       ((emit (LogError ''Failed to connect to DhanHQ'') c)\<lparr>connected := False\<rparr>)"
| "connect (ConnectOk sub # outs) c =
     (let c1 = emit (LogInfo ''Connected to DhanHQ WebSocket'')
                 (c\<lparr>connected := True, reconnect_attempts := 0\<rparr>)
      in case subscribe_market_depth sub c1 of
           Inr c2 \<Rightarrow> Some c2
         | Inl e \<Rightarrow>
             handle_reconnect outs
               ((emit (LogError ''Failed to connect to DhanHQ'') c1)\<lparr>connected := False\<rparr>))"
| "handle_reconnect outs c =
     (if reconnect_attempts c < max_reconnect_attempts c
      then
        let c1 = c\<lparr>reconnect_attempts := reconnect_attempts c + 1\<rparr>;
            wait_time = min (2 ^ reconnect_attempts c1) 30;
            c2 = emit (Sleep wait_time)
                   (emit (LogReconnecting wait_time (reconnect_attempts c1)) c1)
        in connect outs c2
      else Some (emit (LogError ''Max reconnection attempts reached'') c))"
  by pat_completeness auto
termination
  by (relation "measure (\<lambda>x. case x of Inl (outs, c) \<Rightarrow> 2 * length outs
                                     | Inr (outs, c) \<Rightarrow> 2 * length outs + 1)") auto

text \<open>
  \<open>process_market_depth\<close>, \<open>process_tick\<close> and \<open>process_quote\<close> catch every exception
  themselves and never touch the fields of the client; they work on the module globals
  \<open>'g\<close> and are parameters of the dispatch.
\<close>

record 'g handlers =
  process_market_depth :: "json \<Rightarrow> 'g \<Rightarrow> 'g"
  process_tick :: "json \<Rightarrow> 'g \<Rightarrow> 'g"
  process_quote :: "json \<Rightarrow> 'g \<Rightarrow> 'g"

definition process_message ::
  "(string \<Rightarrow> json option) \<Rightarrow> 'g handlers \<Rightarrow> string \<Rightarrow> feed_client \<times> 'g \<Rightarrow> feed_client \<times> 'g" where
  "process_message json_loads h message st =
     (case st of (c, g) \<Rightarrow>
        (case json_loads message of
           None \<Rightarrow> (emit (LogError ''Invalid JSON received'') c, g)
         | Some data \<Rightarrow>
             (case json_get data ''type'' (JString '''') of
                Inl e \<Rightarrow> (emit (LogError ''Error processing message'') c, g)
              | Inr message_type \<Rightarrow>
                  if message_type = JString ''market_depth''
                    then (c, process_market_depth h data g)
                  else if message_type = JString ''tick'' then (c, process_tick h data g)
                  else if message_type = JString ''quote'' then (c, process_quote h data g)
                  else if message_type = JString ''error''
                    then (emit (LogError ''DhanHQ WebSocket error'') c, g)
                  else (emit (LogDebug ''Received message type'') c, g))))"

text \<open>
  The loop of \<open>listen\<close>, driven by what \<open>websocket.recv\<close> does in each round: it returns a
  message, raises \<open>ConnectionClosed\<close> (the outcomes of the reconnection that follows come
  with it) or raises something else. The loop ends when the client is not connected; the
  state is returned as it is when the list of rounds ends.
\<close>

datatype recv_outcome =
    Received string
  | RecvConnectionClosed "connect_outcome list"
  | RecvRaises

fun listen ::
  "(string \<Rightarrow> json option) \<Rightarrow> 'g handlers \<Rightarrow> recv_outcome list \<Rightarrow> feed_client \<times> 'g \<Rightarrow>
     (feed_client \<times> 'g) option" where
  "listen json_loads h [] st = Some st"
| "listen json_loads h (r # rs) (c, g) =
     (if \<not> connected c then Some (c, g)
      else case r of
          Received message \<Rightarrow>
            listen json_loads h rs (process_message json_loads h message (c, g))
        | RecvConnectionClosed outs \<Rightarrow>
            (case handle_reconnect outs
                    ((emit (LogWarning ''DhanHQ WebSocket connection closed'') c)
                       \<lparr>connected := False\<rparr>) of
               None \<Rightarrow> None
             | Some c' \<Rightarrow> listen json_loads h rs (c', g))
        | RecvRaises \<Rightarrow>
            listen json_loads h rs (emit (LogError ''Error processing message'') c, g))"

section \<open>The symbol manager (\<open>SymbolManager\<close> in symbol_manager.py)\<close>

text \<open>
  A symbol information dictionary has the keys \<open>token\<close>, \<open>name\<close>, \<open>sector\<close> and
  \<open>market_cap\<close>. A key can be missing, and its value can be \<open>None\<close> (a JSON null of
  the lookup service, a NULL of the database) instead of a string.
\<close>

datatype pyval = Absent | PyNone | Str string

record symbol_info =
  token :: pyval
  name :: pyval
  sector :: pyval
  market_cap :: pyval

text \<open>\<open>info.get(key, dflt)\<close> for a string default.\<close>

definition get_or :: "pyval \<Rightarrow> string \<Rightarrow> pyval" where
  "get_or v dflt = (case v of Absent \<Rightarrow> Str dflt | _ \<Rightarrow> v)"

text \<open>
  \<open>str.upper\<close>, on ASCII text: the letters a to z are replaced, every other character is
  kept. Calling \<open>upper\<close> on \<open>None\<close> raises.
\<close>

definition upper_char :: "char \<Rightarrow> char" where
  "upper_char ch =
     (case map_of (zip ''abcdefghijklmnopqrstuvwxyz'' ''ABCDEFGHIJKLMNOPQRSTUVWXYZ'') ch of
        None \<Rightarrow> ch
      | Some u \<Rightarrow> u)"

definition upper :: "string \<Rightarrow> string" where
  "upper s = map upper_char s"

definition upper_of :: "pyval \<Rightarrow> py_error + string" where
  "upper_of v = (case v of Str s \<Rightarrow> Inr (upper s) | _ \<Rightarrow> Inl AttributeError)"

text \<open>
  The two SQLite tables: \<open>symbols\<close>, keyed by the symbol, and the log \<open>symbol_requests\<close>
  of (symbol, status) rows. A column holds a string or NULL.
\<close>

record symbol_row =
  row_token :: "string option"
  row_name :: "string option"
  row_sector :: "string option"
  row_market_cap :: "string option"
  last_updated :: real
  is_active :: bool

record symbol_manager =
  symbols_cache :: "(string, symbol_info) dict"
  db_symbols :: "(string, symbol_row) dict"
  db_symbol_requests :: "(string \<times> string) list"

text \<open>
  What the outside answers during one call: the two HTTP lookups (\<open>None\<close> for a status
  other than 200, an empty answer or an exception), whether a write to the database goes
  through, and the clock.
\<close>

record lookup_env =
  dhanhq_api :: "string \<Rightarrow> symbol_info option"
  nse_api :: "string \<Rightarrow> symbol_info option"
  db_ok :: bool
  current_datetime :: real

definition column :: "pyval \<Rightarrow> string option" where
  "column v = (case v of Str s \<Rightarrow> Some s | _ \<Rightarrow> None)"

text \<open>
  \<open>_load_cached_symbols\<close>, called by \<open>__init__\<close> on the empty cache: the active rows,
  latest update first.
\<close>

definition info_of_row :: "symbol_row \<Rightarrow> symbol_info" where
  "info_of_row r =
     \<lparr>token = (case row_token r of None \<Rightarrow> PyNone | Some s \<Rightarrow> Str s),
      name = (case row_name r of None \<Rightarrow> PyNone | Some s \<Rightarrow> Str s),
      sector = (case row_sector r of None \<Rightarrow> PyNone | Some s \<Rightarrow> Str s),
      market_cap = (case row_market_cap r of None \<Rightarrow> PyNone | Some s \<Rightarrow> Str s)\<rparr>"

definition load_cached_symbols :: "(string, symbol_row) dict \<Rightarrow> (string, symbol_info) dict" where
  "load_cached_symbols rows =
     foldl (\<lambda>cache (symbol, r). dict_set cache symbol (info_of_row r)) []
       (sort_key (\<lambda>(symbol, r). - last_updated r) (filter (\<lambda>(symbol, r). is_active r) rows))"

definition init_manager :: "(string, symbol_row) dict \<Rightarrow> (string \<times> string) list \<Rightarrow> symbol_manager" where
  "init_manager rows requests =
     \<lparr>symbols_cache = load_cached_symbols rows, db_symbols = rows,
      db_symbol_requests = requests\<rparr>"

text \<open>
  \<open>_cache_symbol\<close>: the in-memory entry is written first; the row is written when the
  database accepts it (\<open>token\<close> and \<open>name\<close> are NOT NULL columns), and a failure is only
  logged.
\<close>

definition cache_symbol :: "lookup_env \<Rightarrow> string \<Rightarrow> symbol_info \<Rightarrow> symbol_manager \<Rightarrow> symbol_manager" where
  "cache_symbol env symbol info m =
     (let m1 = m\<lparr>symbols_cache := dict_set (symbols_cache m) symbol info\<rparr>;
          r = \<lparr>row_token = column (get_or (token info) ''''),
               row_name = column (get_or (name info) symbol),
               row_sector = column (get_or (sector info) ''''),
               row_market_cap = column (get_or (market_cap info) ''''),
               last_updated = current_datetime env, is_active = True\<rparr>
      in if db_ok env \<and> row_token r \<noteq> None \<and> row_name r \<noteq> None
         then m1\<lparr>db_symbols := dict_set (db_symbols m1) symbol r\<rparr>
         else m1)"

text \<open>\<open>_log_unknown_symbol\<close>.\<close>

definition log_unknown_symbol :: "lookup_env \<Rightarrow> string \<Rightarrow> symbol_manager \<Rightarrow> symbol_manager" where
  "log_unknown_symbol env symbol m =
     (if db_ok env
      then m\<lparr>db_symbol_requests := db_symbol_requests m @ [(symbol, ''unknown'')]\<rparr>
      else m)"

text \<open>\<open>_fetch_symbol_from_api\<close>, which is \<open>_mock_symbol_fetch\<close>.\<close>

definition mock_symbols :: "(string, symbol_info) dict" where
  "mock_symbols =
     [(''AAPL'', \<lparr>token = Str ''1234567'', name = Str ''APPLE INC'',
                  sector = Str ''Technology'', market_cap = Absent\<rparr>),
      (''GOOGL'', \<lparr>token = Str ''2345678'', name = Str ''ALPHABET INC'',
                   sector = Str ''Technology'', market_cap = Absent\<rparr>),
      (''MSFT'', \<lparr>token = Str ''3456789'', name = Str ''MICROSOFT CORP'',
                  sector = Str ''Technology'', market_cap = Absent\<rparr>)]"

definition fetch_symbol_from_api :: "string \<Rightarrow> symbol_info option" where
  "fetch_symbol_from_api symbol = dict_get mock_symbols symbol"

text \<open>\<open>_fetch_symbol_alternative\<close>: the DhanHQ quote service, then the NSE service.\<close>

definition fetch_symbol_alternative :: "lookup_env \<Rightarrow> string \<Rightarrow> symbol_info option" where
  "fetch_symbol_alternative env symbol =
     (case dhanhq_api env symbol of Some info \<Rightarrow> Some info | None \<Rightarrow> nse_api env symbol)"

text \<open>\<open>get_symbol_info\<close>, for a string argument.\<close>

definition get_symbol_info ::
  "lookup_env \<Rightarrow> string \<Rightarrow> symbol_manager \<Rightarrow> symbol_info option \<times> symbol_manager" where
  "get_symbol_info env symbol0 m =
     (let symbol = upper symbol0
      in case dict_get (symbols_cache m) symbol of
           Some info \<Rightarrow> (Some info, m)
         | None \<Rightarrow>
             (case fetch_symbol_from_api symbol of
                Some info \<Rightarrow> (Some info, cache_symbol env symbol info m)
              | None \<Rightarrow>
                  (case fetch_symbol_alternative env symbol of
                     Some info \<Rightarrow> (Some info, cache_symbol env symbol info m)
                   | None \<Rightarrow> (None, log_unknown_symbol env symbol m))))"

text \<open>
  \<open>search_symbols\<close>. \<open>query in text\<close> is the test for a contiguous sublist. The conditions
  are evaluated from left to right, and \<open>or\<close> stops at the first that holds.
\<close>

record search_result =
  r_symbol :: string
  r_token :: pyval
  r_name :: pyval
  r_sector :: pyval
  r_market_cap :: pyval

definition matches :: "string \<Rightarrow> string \<times> symbol_info \<Rightarrow> py_error + bool" where
  "matches query e =
     (case e of (symbol, info) \<Rightarrow>
        if sublist query symbol then Inr True
        else case upper_of (get_or (name info) '''') of
               Inl err \<Rightarrow> Inl err
             | Inr n \<Rightarrow>
                 if sublist query n then Inr True
                 else case upper_of (get_or (sector info) '''') of
                        Inl err \<Rightarrow> Inl err
                      | Inr s \<Rightarrow> Inr (sublist query s))"

definition to_result :: "string \<times> symbol_info \<Rightarrow> search_result" where
  "to_result e =
     (case e of (symbol, info) \<Rightarrow>
        \<lparr>r_symbol = symbol, r_token = get_or (token info) '''',
         r_name = get_or (name info) '''', r_sector = get_or (sector info) '''',
         r_market_cap = get_or (market_cap info) ''''\<rparr>)"

fun collect_matches ::
  "string \<Rightarrow> (string, symbol_info) dict \<Rightarrow> py_error + search_result list" where
  "collect_matches query [] = Inr []"
| "collect_matches query (e # cache) =
     (case matches query e of
        Inl err \<Rightarrow> Inl err
      | Inr hit \<Rightarrow>
          (case collect_matches query cache of
             Inl err \<Rightarrow> Inl err
           | Inr results \<Rightarrow> Inr (if hit then to_result e # results else results)))"

text \<open>The sort key, and the keys of all results as \<open>list.sort\<close> computes them first.\<close>

definition relevance :: "string \<Rightarrow> search_result \<Rightarrow> py_error + nat" where
  "relevance query x =
     (if query = r_symbol x then Inr 0
      else if sublist query (r_symbol x) then Inr 1
      else case upper_of (r_name x) of
             Inl err \<Rightarrow> Inl err
           | Inr n \<Rightarrow> Inr (if sublist query n then 2 else 3))"

fun relevance_keys :: "string \<Rightarrow> search_result list \<Rightarrow> py_error + nat list" where
  "relevance_keys query [] = Inr []"
| "relevance_keys query (x # xs) =
     (case relevance query x of
        Inl err \<Rightarrow> Inl err
      | Inr k \<Rightarrow>
          (case relevance_keys query xs of
             Inl err \<Rightarrow> Inl err
           | Inr ks \<Rightarrow> Inr (k # ks)))"

text \<open>\<open>results[:limit]\<close> for an integer: a negative limit counts from the end.\<close>

definition py_take :: "int \<Rightarrow> 'a list \<Rightarrow> 'a list" where
  "py_take limit xs =
     (if 0 \<le> limit then take (nat limit) xs else take (length xs - nat (- limit)) xs)"

text \<open>The loop and the sort of \<open>search_symbols\<close>, for the query in upper case.\<close>

definition ranked_matches ::
  "string \<Rightarrow> (string, symbol_info) dict \<Rightarrow> py_error + search_result list" where
  "ranked_matches query cache =
     (case collect_matches query cache of
        Inl err \<Rightarrow> Inl err
      | Inr results \<Rightarrow>
          (case relevance_keys query results of
             Inl err \<Rightarrow> Inl err
           | Inr keys \<Rightarrow> Inr (map snd (sort_key fst (zip keys results)))))"

definition search_symbols ::
  "string \<Rightarrow> int \<Rightarrow> (string, symbol_info) dict \<Rightarrow> py_error + search_result list" where
  "search_symbols query limit cache =
     (case ranked_matches (upper query) cache of
        Inl err \<Rightarrow> Inl err
      | Inr results \<Rightarrow> Inr (py_take limit results))"

text \<open>
  The same functions on a cache whose names and sectors are strings, where nothing can
  raise: the match test, and the rank that the sort key assigns.
\<close>

definition text_of :: "pyval \<Rightarrow> string" where
  "text_of v = (case v of Str s \<Rightarrow> s | _ \<Rightarrow> '''')"

definition is_match :: "string \<Rightarrow> string \<times> symbol_info \<Rightarrow> bool" where
  "is_match query e =
     (case e of (symbol, info) \<Rightarrow>
        sublist query symbol \<or> sublist query (upper (text_of (name info))) \<or>
        sublist query (upper (text_of (sector info))))"

definition rank :: "string \<Rightarrow> search_result \<Rightarrow> nat" where
  "rank query x =
     (if query = r_symbol x then 0
      else if sublist query (r_symbol x) then 1
      else if sublist query (upper (text_of (r_name x))) then 2 else 3)"

definition string_fields :: "(string, symbol_info) dict \<Rightarrow> bool" where
  "string_fields cache = list_all (\<lambda>(symbol, info). name info \<noteq> PyNone \<and> sector info \<noteq> PyNone) cache"

section \<open>The viewer endpoint (\<open>websocket_endpoint\<close> in main.py and main_v2.py)\<close>

text \<open>
  One round of the loop of \<open>websocket_endpoint\<close>: a message is received, decoded and
  answered. The model gives the messages that the round sends to the viewer, in order, or
  the exception that ends the session before anything is sent; a send that fails because
  the viewer is gone is not modelled. The round also assigns \<open>current_symbol\<close> and may
  fill the symbol cache; the state at the start of the round is an argument. The
  statement \<open>global current_symbol\<close> stands inside the loop, after the first use of the
  name; it is read here as covering the whole function.
\<close>

datatype off_market = OffMarketError | OffMarketData string

datatype reply =
    Pong real
  | HistoricalData string
  | SymbolChanged string "string option" symbol_info string
  | SymbolError string string
  | SymbolSearchResults json "search_result list"


definition default_symbols :: "(string, symbol_info) dict" where
  "default_symbols =
     map (\<lambda>(symbol, tok, nm).
            (symbol, \<lparr>token = Str tok, name = Str nm, sector = Absent, market_cap = Absent\<rparr>))
       [(''RELIANCE'', ''2885633'', ''RELIANCE''),
        (''TCS'', ''2953217'', ''TCS''),
        (''HDFCBANK'', ''341249'', ''HDFC BANK''),
        (''INFY'', ''408065'', ''INFOSYS''),
        (''ITC'', ''424961'', ''ITC''),
        (''BHARTIARTL'', ''2714625'', ''BHARTI AIRTEL''),
        (''SBIN'', ''779521'', ''STATE BANK OF INDIA''),
        (''ASIANPAINT'', ''60417'', ''ASIAN PAINTS''),
        (''KOTAKBANK'', ''492033'', ''KOTAK MAHINDRA BANK''),
        (''MARUTI'', ''2815745'', ''MARUTI SUZUKI'')]"

text \<open>
  The surroundings of a round: the market status read when the viewer connected, the
  clock, the historical data collaborator (it catches its own exceptions and returns a
  dictionary with or without the key \<open>error\<close>), the symbol lookups, and how the call of
  \<open>dhan_client.subscribe_market_depth\<close> goes.
\<close>

record endpoint_env =
  is_market_hours :: bool
  time_now :: real
  get_off_market_data :: "string \<Rightarrow> json \<Rightarrow> off_market"
  lookup :: lookup_env
  subscribe :: subscribe_outcome

record relay =
  current_symbol :: string
  manager :: symbol_manager
  feed :: feed_client

text \<open>The historical data is sent when the dictionary has no key \<open>error\<close>.\<close>

definition historical_messages :: "off_market \<Rightarrow> reply list" where
  "historical_messages historical_data =
     (case historical_data of OffMarketError \<Rightarrow> [] | OffMarketData payload \<Rightarrow> [HistoricalData payload])"

text \<open>\<open>results[:limit]\<close> for the JSON value of the command.\<close>

definition py_slice :: "json \<Rightarrow> 'a list \<Rightarrow> py_error + 'a list" where
  "py_slice limit xs =
     (case limit of
        JInt n \<Rightarrow> Inr (py_take n xs)
      | JBool b \<Rightarrow> Inr (py_take (if b then 1 else 0) xs)
      | JNull \<Rightarrow> Inr xs
      | _ \<Rightarrow> Inl TypeError)"

text \<open>\<open>symbol_manager.search_symbols(query, limit)\<close> for the JSON values of the command.\<close>

definition search_symbols_json ::
  "json \<Rightarrow> json \<Rightarrow> (string, symbol_info) dict \<Rightarrow> py_error + search_result list" where
  "search_symbols_json query limit cache =
     (case query of
        JString q \<Rightarrow>
          (case ranked_matches (upper q) cache of
             Inl err \<Rightarrow> Inl err
           | Inr results \<Rightarrow> py_slice limit results)
      | _ \<Rightarrow> Inl AttributeError)"

text \<open>The branch of main.py for \<open>change_symbol\<close>, once the symbol is known to be valid.\<close>

definition switch_symbol ::
  "endpoint_env \<Rightarrow> relay \<Rightarrow> string \<Rightarrow> string \<Rightarrow> symbol_info \<Rightarrow> py_error + reply list" where
  "switch_symbol env st new_symbol source info =
     (if is_market_hours env
      then case subscribe_market_depth (subscribe env) (feed st) of
             Inl err \<Rightarrow> Inl err
           | Inr c \<Rightarrow> Inr [SymbolChanged new_symbol (Some source) info ''live'']
      else Inr (historical_messages (get_off_market_data env new_symbol (JString ''1min'')) @
                [SymbolChanged new_symbol (Some source) info ''historical'']))"

definition change_symbol :: "endpoint_env \<Rightarrow> relay \<Rightarrow> json \<Rightarrow> py_error + reply list" where
  "change_symbol env st data =
     (case json_get data ''symbol'' JNull of
        Inl err \<Rightarrow> Inl err
      | Inr (JString new_symbol) \<Rightarrow>
          (case fst (get_symbol_info (lookup env) new_symbol (manager st)) of
             Some info \<Rightarrow> switch_symbol env st new_symbol ''dynamic'' info
           | None \<Rightarrow>
               (case dict_get default_symbols new_symbol of
                  Some info \<Rightarrow> switch_symbol env st new_symbol ''default'' info
                | None \<Rightarrow>
                    Inr [SymbolError new_symbol
                           ''Symbol not found. Please check the symbol name or try searching for it first.'']))
      | Inr other \<Rightarrow> Inl AttributeError)"

definition change_timeframe :: "'a endpoint_env_scheme \<Rightarrow> relay \<Rightarrow> json \<Rightarrow> py_error + reply list" where
  "change_timeframe env st data =
     (if \<not> is_market_hours env
      then case json_get data ''timeframe'' (JString ''1min'') of
             Inl err \<Rightarrow> Inl err
           | Inr timeframe \<Rightarrow>
               Inr (historical_messages (get_off_market_data env (current_symbol st) timeframe))
      else Inr [])"

definition search_command :: "relay \<Rightarrow> json \<Rightarrow> py_error + reply list" where
  "search_command st data =
     (case json_get data ''query'' (JString '''') of
        Inl err \<Rightarrow> Inl err
      | Inr query \<Rightarrow>
          (case json_get data ''limit'' (JInt 20) of
             Inl err \<Rightarrow> Inl err
           | Inr limit \<Rightarrow>
               (case search_symbols_json query limit (symbols_cache (manager st)) of
                  Inl err \<Rightarrow> Inl err
                | Inr results \<Rightarrow> Inr [SymbolSearchResults query results])))"

definition handle_message ::
  "(string \<Rightarrow> json option) \<Rightarrow> endpoint_env \<Rightarrow> relay \<Rightarrow> string \<Rightarrow> py_error + reply list" where
  "handle_message json_loads env st message =
     (case json_loads message of
        None \<Rightarrow> Inl JSONDecodeError
      | Some data \<Rightarrow>
          (case json_get data ''type'' JNull of
             Inl err \<Rightarrow> Inl err
           | Inr message_type \<Rightarrow>
               if message_type = JString ''ping'' then Inr [Pong (time_now env)]
               else if message_type = JString ''change_symbol'' then change_symbol env st data
               else if message_type = JString ''change_timeframe''
                 then change_timeframe env st data
               else if message_type = JString ''search_symbols'' then search_command st data
               else Inr []))"

text \<open>
  main_v2.py. The Supabase manager and the DhanHQ manager are module globals that are
  \<open>None\<close> until the startup hook has set them. The methods of the Supabase manager catch
  their own exceptions; \<open>subscribe_symbol\<close> of the DhanHQ manager returns or raises.
\<close>

record supabase =
  is_available :: bool
  get_symbol :: "string \<Rightarrow> symbol_info option"
  supabase_search :: "json \<Rightarrow> json \<Rightarrow> search_result list"

record endpoint_env_v2 = endpoint_env +
  supabase_manager :: "supabase option"
  dhan_manager :: "bool option"

definition supabase_ready :: "'a endpoint_env_v2_scheme \<Rightarrow> supabase option" where
  "supabase_ready env =
     (case supabase_manager env of
        Some sb \<Rightarrow> if is_available sb then Some sb else None
      | None \<Rightarrow> None)"

definition change_symbol_v2 :: "endpoint_env_v2 \<Rightarrow> relay \<Rightarrow> json \<Rightarrow> py_error + reply list" where
  "change_symbol_v2 env st data =
     (case json_get data ''symbol'' (JString '''') of
        Inl err \<Rightarrow> Inl err
      | Inr (JString s) \<Rightarrow>
          (let new_symbol = upper s;
               from_supabase =
                 (case supabase_ready env of
                    Some sb \<Rightarrow> get_symbol sb new_symbol
                  | None \<Rightarrow> None);
               symbol_info =
                 (case from_supabase of
                    Some info \<Rightarrow> Some info
                  | None \<Rightarrow> fst (get_symbol_info (lookup env) new_symbol (manager st)))
           in case symbol_info of
                Some info \<Rightarrow>
                  if is_market_hours env \<and> dhan_manager env \<noteq> None
                  then if dhan_manager env = Some True
                       then Inr [SymbolChanged new_symbol None info ''live'']
                       else Inr [SymbolError new_symbol ''Error subscribing'']
                  else Inr (historical_messages
                              (get_off_market_data env new_symbol (JString ''1min'')) @
                            [SymbolChanged new_symbol None info ''historical''])
              | None \<Rightarrow> Inr [SymbolError new_symbol ''Symbol not found''])
      | Inr other \<Rightarrow> Inl AttributeError)"

definition search_command_v2 :: "endpoint_env_v2 \<Rightarrow> relay \<Rightarrow> json \<Rightarrow> py_error + reply list" where
  "search_command_v2 env st data =
     (case json_get data ''query'' (JString '''') of
        Inl err \<Rightarrow> Inl err
      | Inr query \<Rightarrow>
          (case json_get data ''limit'' (JInt 20) of
             Inl err \<Rightarrow> Inl err
           | Inr limit \<Rightarrow>
               (let results =
                      (case supabase_ready env of
                         Some sb \<Rightarrow> supabase_search sb query limit
                       | None \<Rightarrow> [])
                in if results \<noteq> [] then Inr [SymbolSearchResults query results]
                   else case search_symbols_json query limit (symbols_cache (manager st)) of
                          Inl err \<Rightarrow> Inl err
                        | Inr found \<Rightarrow> Inr [SymbolSearchResults query found])))"

definition handle_message_v2 ::
  "(string \<Rightarrow> json option) \<Rightarrow> endpoint_env_v2 \<Rightarrow> relay \<Rightarrow> string \<Rightarrow> py_error + reply list" where
  "handle_message_v2 json_loads env st message =
     (case json_loads message of
        None \<Rightarrow> Inl JSONDecodeError
      | Some data \<Rightarrow>
          (case json_get data ''type'' JNull of
             Inl err \<Rightarrow> Inl err
           | Inr message_type \<Rightarrow>
               if message_type = JString ''ping'' then Inr [Pong (time_now env)]
               else if message_type = JString ''change_symbol''
                 then change_symbol_v2 env st data
               else if message_type = JString ''change_timeframe''
                 then change_timeframe env st data
               else if message_type = JString ''search_symbols''
                 then search_command_v2 env st data
               else Inr []))"

text \<open>A historical data collaborator that has data for every symbol and time frame.\<close>

definition history_available :: "string \<Rightarrow> json \<Rightarrow> off_market" where
  "history_available symbol timeframe = OffMarketData ''candles''"

section \<open>Properties of the aggregation\<close>

lemma dict_get_dict_set:
  "dict_get (dict_set d k v) k' = (if k' = k then Some v else dict_get d k')"
  by (induction d) auto

lemma dict_set_not_Nil: "dict_set d k v \<noteq> []"
  by (cases d) (auto split: if_splits)

lemma volume_sum_dict_set:
  "volume_sum (dict_set d k v) =
     volume_sum d + total_volume v - (case dict_get d k of None \<Rightarrow> 0 | Some e \<Rightarrow> total_volume e)"
  by (induction d) (auto simp: volume_sum_def)

lemma balanced_dict_set:
  "balanced d \<Longrightarrow> buy_volume v + sell_volume v = total_volume v \<Longrightarrow> balanced (dict_set d k v)"
  by (induction d) (auto simp: balanced_def)

lemma balanced_dict_get:
  "balanced d \<Longrightarrow> dict_get d k = Some e \<Longrightarrow> buy_volume e + sell_volume e = total_volume e"
  by (induction d) (auto simp: balanced_def split: if_splits)

lemma balanced_entry_at:
  "balanced d \<Longrightarrow>
     buy_volume (entry_at ts d p) + sell_volume (entry_at ts d p) = total_volume (entry_at ts d p)"
  by (auto simp: entry_at_def new_entry_def split: option.splits dest: balanced_dict_get)

lemma total_volume_entry_at:
  "total_volume (entry_at ts d p) = (case dict_get d p of None \<Rightarrow> 0 | Some e \<Rightarrow> total_volume e)"
  by (simp add: entry_at_def new_entry_def split: option.splits)

lemma volume_sum_add_tick: "volume_sum (add_tick now d t) = volume_sum d + quantity t"
  by (simp add: add_tick_def Let_def volume_sum_dict_set total_volume_entry_at
      split: option.splits)

lemma balanced_add_tick: "balanced d \<Longrightarrow> balanced (add_tick now d t)"
  using balanced_entry_at [of d now "price t"]
  by (auto simp: add_tick_def Let_def intro!: balanced_dict_set)

lemma volume_sum_add_tick_v2:
  "volume_sum (add_tick_v2 now d t) = volume_sum d + get_default (quantity_v2 t) 0"
  by (simp add: add_tick_v2_def Let_def volume_sum_dict_set total_volume_entry_at
      split: option.splits)

lemma balanced_add_tick_v2: "balanced d \<Longrightarrow> balanced (add_tick_v2 now d t)"
  using balanced_entry_at
    [of d "get_default (timestamp_v2 t) now" "get_default (price_v2 t) 0"]
  by (auto simp: add_tick_v2_def Let_def intro!: balanced_dict_set)

lemma volume_sum_foldl:
  "volume_sum (foldl (add_tick now) d ts) = volume_sum d + sum_list (map quantity ts)"
  by (induction ts arbitrary: d) (simp_all add: volume_sum_add_tick)

lemma balanced_foldl: "balanced d \<Longrightarrow> balanced (foldl (add_tick now) d ts)"
  by (induction ts arbitrary: d) (simp_all add: balanced_add_tick)

lemma volume_sum_foldl_v2:
  "volume_sum (foldl (add_tick_v2 now) d ts) =
     volume_sum d + sum_list (map (\<lambda>t. get_default (quantity_v2 t) 0) ts)"
  by (induction ts arbitrary: d) (simp_all add: volume_sum_add_tick_v2)

lemma balanced_foldl_v2: "balanced d \<Longrightarrow> balanced (foldl (add_tick_v2 now) d ts)"
  by (induction ts arbitrary: d) (simp_all add: balanced_add_tick_v2)

lemma foldl_add_tick_not_Nil: "d \<noteq> [] \<Longrightarrow> foldl (add_tick now) d ts \<noteq> []"
  by (induction ts arbitrary: d) (simp_all add: add_tick_def Let_def dict_set_not_Nil)

lemma foldl_add_tick_v2_not_Nil: "d \<noteq> [] \<Longrightarrow> foldl (add_tick_v2 now) d ts \<noteq> []"
  by (induction ts arbitrary: d) (simp_all add: add_tick_v2_def Let_def dict_set_not_Nil)

lemma aggregate_nonempty: "ts \<noteq> [] \<Longrightarrow> foldl (add_tick now) [] ts \<noteq> []"
  by (cases ts) (simp_all add: foldl_add_tick_not_Nil add_tick_def Let_def dict_set_not_Nil)

lemma aggregate_v2_nonempty: "ts \<noteq> [] \<Longrightarrow> foldl (add_tick_v2 now) [] ts \<noteq> []"
  by (cases ts) (simp_all add: foldl_add_tick_v2_not_Nil add_tick_v2_def Let_def dict_set_not_Nil)

lemma volume_sum_Nil: "volume_sum [] = 0"
  by (simp add: volume_sum_def)

lemma balanced_Nil: "balanced []"
  by (simp add: balanced_def)

text \<open>
  C1. Whenever the 100 ms window has elapsed and ticks are buffered, \<open>aggregate_ticks\<close>
  (main.py and main_v2.py alike) clears the buffer and hands one message to the broadcast;
  the total volumes of its records add up to the quantities of the buffered ticks, and
  every record has \<open>buy_volume + sell_volume = total_volume\<close>.
\<close>

theorem aggregate_ticks_partitions_volume:
  "(\<not> now - last_aggregation_time st < 1 / 10 \<and> tick_buffer st \<noteq> [] \<longrightarrow>
      (\<exists>d. aggregate_ticks now st =
              (st\<lparr>tick_buffer := [], last_aggregation_time := now\<rparr>,
               Some (AggregatedTrades d now)) \<and>
           volume_sum d = sum_list (map quantity (tick_buffer st)) \<and> balanced d))
   \<and>
   (\<not> now - last_aggregation_time_v2 st2 < 1 / 10 \<and> tick_buffer_v2 st2 \<noteq> [] \<longrightarrow>
      (\<exists>d. aggregate_ticks_v2 now st2 =
              (st2\<lparr>tick_buffer_v2 := [], last_aggregation_time_v2 := now\<rparr>,
               Some (AggregatedTrades d now)) \<and>
           volume_sum d =
             sum_list (map (\<lambda>t. get_default (quantity_v2 t) 0) (tick_buffer_v2 st2)) \<and>
           balanced d))"
proof (intro conjI impI)
  assume a: "\<not> now - last_aggregation_time st < 1 / 10 \<and> tick_buffer st \<noteq> []"
  let ?d = "foldl (add_tick now) [] (tick_buffer st)"
  have "?d \<noteq> []"
    using a by (simp add: aggregate_nonempty)
  then have "aggregate_ticks now st =
      (st\<lparr>tick_buffer := [], last_aggregation_time := now\<rparr>, Some (AggregatedTrades ?d now))"
    using a by (simp add: aggregate_ticks_def Let_def)
  moreover have "volume_sum ?d = sum_list (map quantity (tick_buffer st))"
    by (simp add: volume_sum_foldl volume_sum_Nil)
  moreover have "balanced ?d"
    by (simp add: balanced_foldl balanced_Nil)
  ultimately show "\<exists>d. aggregate_ticks now st =
              (st\<lparr>tick_buffer := [], last_aggregation_time := now\<rparr>,
               Some (AggregatedTrades d now)) \<and>
           volume_sum d = sum_list (map quantity (tick_buffer st)) \<and> balanced d"
    by blast
next
  assume a: "\<not> now - last_aggregation_time_v2 st2 < 1 / 10 \<and> tick_buffer_v2 st2 \<noteq> []"
  let ?d = "foldl (add_tick_v2 now) [] (tick_buffer_v2 st2)"
  have "?d \<noteq> []"
    using a by (simp add: aggregate_v2_nonempty)
  then have "aggregate_ticks_v2 now st2 =
      (st2\<lparr>tick_buffer_v2 := [], last_aggregation_time_v2 := now\<rparr>,
       Some (AggregatedTrades ?d now))"
    using a by (simp add: aggregate_ticks_v2_def Let_def)
  moreover have "volume_sum ?d =
      sum_list (map (\<lambda>t. get_default (quantity_v2 t) 0) (tick_buffer_v2 st2))"
    by (simp add: volume_sum_foldl_v2 volume_sum_Nil)
  moreover have "balanced ?d"
    by (simp add: balanced_foldl_v2 balanced_Nil)
  ultimately show "\<exists>d. aggregate_ticks_v2 now st2 =
              (st2\<lparr>tick_buffer_v2 := [], last_aggregation_time_v2 := now\<rparr>,
               Some (AggregatedTrades d now)) \<and>
           volume_sum d =
             sum_list (map (\<lambda>t. get_default (quantity_v2 t) 0) (tick_buffer_v2 st2)) \<and>
           balanced d"
    by blast
qed

theorem aggregate_ticks_partitions_volume_witness:
  "(\<exists>d. aggregate_ticks 1
          \<lparr>tick_buffer =
             [\<lparr>price = 100, quantity = 10, side = ''buy'', tick_timestamp = 1\<rparr>,
              \<lparr>price = 100, quantity = 5, side = ''unknown'', tick_timestamp = 1\<rparr>,
              \<lparr>price = 101, quantity = 7, side = ''sell'', tick_timestamp = 1\<rparr>],
           last_aggregation_time = 0\<rparr> =
        (\<lparr>tick_buffer = [], last_aggregation_time = 1\<rparr>, Some (AggregatedTrades d 1)) \<and>
        volume_sum d = 22 \<and> balanced d)
   \<and>
   (\<exists>d. aggregate_ticks_v2 1
          \<lparr>tick_buffer_v2 =
             [\<lparr>price_v2 = Some 100, quantity_v2 = Some 7, timestamp_v2 = Some 1\<rparr>,
              \<lparr>price_v2 = Some 100, quantity_v2 = Some 5, timestamp_v2 = None\<rparr>],
           last_aggregation_time_v2 = 0\<rparr> =
        (\<lparr>tick_buffer_v2 = [], last_aggregation_time_v2 = 1\<rparr>, Some (AggregatedTrades d 1)) \<and>
        volume_sum d = 12 \<and> balanced d)"
  using aggregate_ticks_partitions_volume
    [of 1 "\<lparr>tick_buffer =
             [\<lparr>price = 100, quantity = 10, side = ''buy'', tick_timestamp = 1\<rparr>,
              \<lparr>price = 100, quantity = 5, side = ''unknown'', tick_timestamp = 1\<rparr>,
              \<lparr>price = 101, quantity = 7, side = ''sell'', tick_timestamp = 1\<rparr>],
           last_aggregation_time = 0\<rparr>"
        "\<lparr>tick_buffer_v2 =
             [\<lparr>price_v2 = Some 100, quantity_v2 = Some 7, timestamp_v2 = Some 1\<rparr>,
              \<lparr>price_v2 = Some 100, quantity_v2 = Some 5, timestamp_v2 = None\<rparr>],
           last_aggregation_time_v2 = 0\<rparr>"]
  by (simp add: get_default_def)

lemma half_floor: "(q::int) div 2 = \<lfloor>real_of_int q / 2\<rfloor>"
  using floor_divide_of_int_eq [of q 2, where ?'a = real] by simp

lemma half_ceiling: "(q::int) - q div 2 = \<lceil>real_of_int q / 2\<rceil>"
  by (simp add: ceiling_def) linarith

text \<open>
  C4, as stated, fails on main.py: a tick of quantity 10 whose side is \<open>unknown\<close> is not
  split 5/5 there.
\<close>

theorem unknown_side_not_split_counterexample:
  "\<not> (buy_contribution 1 []
          (add_tick 1 [] \<lparr>price = 100, quantity = 10, side = ''unknown'', tick_timestamp = 1\<rparr>)
          100 = 10 div 2 \<and>
       sell_contribution 1 []
          (add_tick 1 [] \<lparr>price = 100, quantity = 10, side = ''unknown'', tick_timestamp = 1\<rparr>)
          100 = 10 - 10 div 2)"
  by (simp add: buy_contribution_def sell_contribution_def add_tick_def entry_at_def
      new_entry_def)

text \<open>
  C4, amended. In main.py a tick whose side is \<open>buy\<close> adds its whole quantity to the buy
  volume and nothing to the sell volume, and a tick of any other side (so also \<open>unknown\<close>)
  adds its whole quantity to the sell volume and nothing to the buy volume. In main_v2.py
  every tick, whatever its side, adds \<open>quantity // 2\<close> (the half rounded down) to the buy
  volume and \<open>quantity - quantity // 2\<close> (the half rounded up) to the sell volume. In both
  files the two contributions of a tick add up to its quantity.
\<close>

theorem aggregation_side_split:
  "(side t \<noteq> ''buy'' \<longrightarrow>
      buy_contribution now d (add_tick now d t) (price t) = 0 \<and>
      sell_contribution now d (add_tick now d t) (price t) = quantity t)
   \<and>
   (side t = ''buy'' \<longrightarrow>
      buy_contribution now d (add_tick now d t) (price t) = quantity t \<and>
      sell_contribution now d (add_tick now d t) (price t) = 0)
   \<and>
   buy_contribution now d (add_tick now d t) (price t) +
     sell_contribution now d (add_tick now d t) (price t) = quantity t
   \<and>
   (let q = get_default (quantity_v2 t2) 0;
        p = get_default (price_v2 t2) 0;
        ts = get_default (timestamp_v2 t2) now;
        d' = add_tick_v2 now d2 t2
    in buy_contribution ts d2 d' p = q div 2 \<and>
       sell_contribution ts d2 d' p = q - q div 2 \<and>
       q div 2 = \<lfloor>real_of_int q / 2\<rfloor> \<and>
       q - q div 2 = \<lceil>real_of_int q / 2\<rceil> \<and>
       buy_contribution ts d2 d' p + sell_contribution ts d2 d' p = q)"
proof -
  have other: "side t \<noteq> ''buy'' \<longrightarrow>
      buy_contribution now d (add_tick now d t) (price t) = 0 \<and>
      sell_contribution now d (add_tick now d t) (price t) = quantity t"
    by (simp add: buy_contribution_def sell_contribution_def add_tick_def Let_def entry_at_def
        dict_get_dict_set split: option.splits)
  have buy: "side t = ''buy'' \<longrightarrow>
      buy_contribution now d (add_tick now d t) (price t) = quantity t \<and>
      sell_contribution now d (add_tick now d t) (price t) = 0"
    by (simp add: buy_contribution_def sell_contribution_def add_tick_def Let_def entry_at_def
        dict_get_dict_set split: option.splits)
  have total: "buy_contribution now d (add_tick now d t) (price t) +
     sell_contribution now d (add_tick now d t) (price t) = quantity t"
    using other buy by (cases "side t = ''buy''") simp_all
  have v2: "buy_contribution ts d2 (add_tick_v2 now d2 t2) p = q div 2 \<and>
       sell_contribution ts d2 (add_tick_v2 now d2 t2) p = q - q div 2"
    if "q = get_default (quantity_v2 t2) 0" "p = get_default (price_v2 t2) 0"
       "ts = get_default (timestamp_v2 t2) now" for q p ts
    using that
    by (simp add: buy_contribution_def sell_contribution_def add_tick_v2_def Let_def entry_at_def
        dict_get_dict_set split: option.splits)
  have v2_all: "let q = get_default (quantity_v2 t2) 0;
        p = get_default (price_v2 t2) 0;
        ts = get_default (timestamp_v2 t2) now;
        d' = add_tick_v2 now d2 t2
    in buy_contribution ts d2 d' p = q div 2 \<and>
       sell_contribution ts d2 d' p = q - q div 2 \<and>
       q div 2 = \<lfloor>real_of_int q / 2\<rfloor> \<and>
       q - q div 2 = \<lceil>real_of_int q / 2\<rceil> \<and>
       buy_contribution ts d2 d' p + sell_contribution ts d2 d' p = q"
    using v2 by (simp add: Let_def half_floor [symmetric] half_ceiling [symmetric])
  from other buy total v2_all show ?thesis
    by (intro conjI)
qed

theorem aggregation_side_split_witness:
  "(''unknown'' \<noteq> ''buy'' \<and>
      buy_contribution 1 []
        (add_tick 1 [] \<lparr>price = 100, quantity = 9, side = ''unknown'', tick_timestamp = 1\<rparr>)
        100 = 0 \<and>
      sell_contribution 1 []
        (add_tick 1 [] \<lparr>price = 100, quantity = 9, side = ''unknown'', tick_timestamp = 1\<rparr>)
        100 = 9)
   \<and> buy_contribution 1 []
        (add_tick 1 [] \<lparr>price = 100, quantity = 9, side = ''buy'', tick_timestamp = 1\<rparr>)
        100 = 9
   \<and> sell_contribution 1 []
        (add_tick 1 [] \<lparr>price = 100, quantity = 9, side = ''buy'', tick_timestamp = 1\<rparr>)
        100 = 0
   \<and> buy_contribution 1 []
        (add_tick_v2 1 [] \<lparr>price_v2 = Some 100, quantity_v2 = Some 9, timestamp_v2 = None\<rparr>)
        100 = 4
   \<and> sell_contribution 1 []
        (add_tick_v2 1 [] \<lparr>price_v2 = Some 100, quantity_v2 = Some 9, timestamp_v2 = None\<rparr>)
        100 = 5"
  using aggregation_side_split
    [of "\<lparr>price = 100, quantity = 9, side = ''unknown'', tick_timestamp = 1\<rparr>" 1 "[]"
        "\<lparr>price_v2 = Some 100, quantity_v2 = Some 9, timestamp_v2 = None\<rparr>" "[]"]
    aggregation_side_split
    [of "\<lparr>price = 100, quantity = 9, side = ''buy'', tick_timestamp = 1\<rparr>" 1 "[]"
        "\<lparr>price_v2 = Some 100, quantity_v2 = Some 9, timestamp_v2 = None\<rparr>" "[]"]
  by (simp add: get_default_def Let_def)

section \<open>Properties of the broadcast\<close>

text \<open>
  C3. The body of \<open>broadcast_to_clients\<close> does what the claim says once the name
  \<open>connected_clients\<close> is bound to the session set: with sessions 1, 2, 3 and a failing send
  to session 2, sessions 1 and 3 get the message and remain. As written, the function
  assigns the name without declaring it global, so every call raises \<open>UnboundLocalError\<close>
  on its first line: nothing is sent and no session is removed.
\<close>

theorem broadcast_raises_unbound_local:
  "broadcast_to_clients send_ok connected_clients = Inl (UnboundLocalError ''connected_clients'')
   \<and> broadcast_to_clients (\<lambda>client. client \<noteq> 2) [1, 2, 3] =
       Inl (UnboundLocalError ''connected_clients'')
   \<and> broadcast_body (\<lambda>client. client \<noteq> 2) (Some [1, 2, 3]) = Inr ([1, 3], [1, 3])"
  by (simp add: broadcast_to_clients_def broadcast_body_def name_scope_def
      broadcast_assigned_def broadcast_declared_global_def)

section \<open>Properties of the feed client\<close>

lemma handle_reconnect_retry:
  "reconnect_attempts c < max_reconnect_attempts c \<Longrightarrow>
   handle_reconnect outs c =
     connect outs
       (c\<lparr>reconnect_attempts := Suc (reconnect_attempts c),
          trace := trace c @
            [LogReconnecting (min (2 ^ Suc (reconnect_attempts c)) 30)
               (Suc (reconnect_attempts c)),
             Sleep (min (2 ^ Suc (reconnect_attempts c)) 30)]\<rparr>)"
  by (simp add: emit_def Let_def)

lemma handle_reconnect_exhausted:
  "\<not> reconnect_attempts c < max_reconnect_attempts c \<Longrightarrow>
   handle_reconnect outs c =
     Some (c\<lparr>trace := trace c @ [LogError ''Max reconnection attempts reached'']\<rparr>)"
  by (simp add: emit_def)

lemma connect_raises:
  "connect (ConnectRaises # outs) c =
     handle_reconnect outs
       (c\<lparr>connected := False, trace := trace c @ [LogError ''Failed to connect to DhanHQ'']\<rparr>)"
  by (simp add: emit_def)

declare handle_reconnect.simps [simp del]

lemma connect_send_raises:
  "connect (ConnectOk SendRaises # outs) c =
     handle_reconnect outs
       (c\<lparr>reconnect_attempts := 0,
          trace := trace c @ [LogInfo ''Connected to DhanHQ WebSocket'',
                              LogError ''Failed to connect to DhanHQ''],
          connected := False\<rparr>)"
  by (simp add: subscribe_market_depth_def emit_def Let_def)

lemma subscribe_keeps_counter:
  "subscribe_market_depth sub c = Inr c2 \<Longrightarrow> reconnect_attempts c2 = reconnect_attempts c"
  by (cases sub) (auto simp: subscribe_market_depth_def emit_def split: if_splits)

lemma process_message_keeps_counter:
  "reconnect_attempts (fst (process_message json_loads h message (c, g))) = reconnect_attempts c"
  by (simp add: process_message_def emit_def split: option.splits sum.splits)

text \<open>
  C2, as stated, fails: the first connection and reconnect attempts 1 to 4 fail, attempt 5
  opens the transport and then fails in the subscription. The client does not stop and
  logs no final error; it retries after a delay of 2, as attempt 1, and this time
  subscribes.
\<close>

theorem retry_after_fifth_attempt_counterexample:
  "connect [ConnectRaises, ConnectRaises, ConnectRaises, ConnectRaises, ConnectRaises,
            ConnectOk SendRaises, ConnectOk SendOk]
     \<lparr>connected = False, reconnect_attempts = 0, max_reconnect_attempts = 5, trace = []\<rparr> =
   Some \<lparr>connected = True, reconnect_attempts = 0, max_reconnect_attempts = 5,
         trace =
           [LogError ''Failed to connect to DhanHQ'', LogReconnecting 2 1, Sleep 2,
            LogError ''Failed to connect to DhanHQ'', LogReconnecting 4 2, Sleep 4,
            LogError ''Failed to connect to DhanHQ'', LogReconnecting 8 3, Sleep 8,
            LogError ''Failed to connect to DhanHQ'', LogReconnecting 16 4, Sleep 16,
            LogError ''Failed to connect to DhanHQ'', LogReconnecting 30 5, Sleep 30,
            LogInfo ''Connected to DhanHQ WebSocket'',
            LogError ''Failed to connect to DhanHQ'', LogReconnecting 2 1, Sleep 2,
            LogInfo ''Connected to DhanHQ WebSocket'', SendSubscribe,
            LogInfo ''Subscribed to market depth'']\<rparr>"
  by (simp add: subscribe_market_depth_def emit_def Let_def handle_reconnect.simps)

text \<open>
  C2, amended. With the maximum of 5 attempts set by \<open>__init__\<close>, and the attempts numbered
  by the counter \<open>reconnect_attempts\<close>: reconnect attempt \<open>n\<close> (for \<open>1 \<le> n \<le> 5\<close>) sleeps
  \<open>min (2 ^ n) 30\<close> before it calls \<open>connect\<close>. When a connection attempt fails while the
  counter stands at 5, as it does after attempt 5 failed to open the transport,
  \<open>handle_reconnect\<close> makes no further attempt; its only report is the error log line
  "Max reconnection attempts reached". A run in which no attempt opens the transport
  therefore sleeps 2, 4, 8, 16 and 30 and stops after the sixth failure, whatever the
  network would answer next. An attempt that opens the transport and then fails in the
  subscription is followed by attempt 1 with a delay of 2, whatever its own number was.
\<close>

theorem reconnect_backoff:
  assumes "max_reconnect_attempts c = 5"
  shows "(1 \<le> n \<and> n \<le> 5 \<and> reconnect_attempts c = n - 1 \<longrightarrow>
           handle_reconnect outs c =
             connect outs
               (c\<lparr>reconnect_attempts := n,
                  trace := trace c @
                    [LogReconnecting (min (2 ^ n) 30) n, Sleep (min (2 ^ n) 30)]\<rparr>))
       \<and> (reconnect_attempts c = 5 \<longrightarrow>
           handle_reconnect outs c =
             Some (c\<lparr>trace := trace c @ [LogError ''Max reconnection attempts reached'']\<rparr>))
       \<and> (reconnect_attempts c = 0 \<longrightarrow>
           connect (ConnectRaises # ConnectRaises # ConnectRaises # ConnectRaises #
                    ConnectRaises # ConnectRaises # outs) c =
             Some (c\<lparr>connected := False, reconnect_attempts := 5,
                     trace := trace c @
                       [LogError ''Failed to connect to DhanHQ'', LogReconnecting 2 1, Sleep 2,
                        LogError ''Failed to connect to DhanHQ'', LogReconnecting 4 2, Sleep 4,
                        LogError ''Failed to connect to DhanHQ'', LogReconnecting 8 3, Sleep 8,
                        LogError ''Failed to connect to DhanHQ'', LogReconnecting 16 4, Sleep 16,
                        LogError ''Failed to connect to DhanHQ'', LogReconnecting 30 5, Sleep 30,
                        LogError ''Failed to connect to DhanHQ'',
                        LogError ''Max reconnection attempts reached'']\<rparr>))
       \<and> connect (ConnectOk SendRaises # outs) c =
           connect outs
             (c\<lparr>connected := False, reconnect_attempts := 1,
                trace := trace c @
                  [LogInfo ''Connected to DhanHQ WebSocket'',
                   LogError ''Failed to connect to DhanHQ'',
                   LogReconnecting 2 1, Sleep 2]\<rparr>)"
proof (intro conjI impI)
  assume "1 \<le> n \<and> n \<le> 5 \<and> reconnect_attempts c = n - 1"
  then have "reconnect_attempts c < max_reconnect_attempts c" "Suc (reconnect_attempts c) = n"
    using assms by auto
  then show "handle_reconnect outs c =
             connect outs
               (c\<lparr>reconnect_attempts := n,
                  trace := trace c @
                    [LogReconnecting (min (2 ^ n) 30) n, Sleep (min (2 ^ n) 30)]\<rparr>)"
    using handle_reconnect_retry [of c outs] by simp
next
  assume "reconnect_attempts c = 5"
  then show "handle_reconnect outs c =
             Some (c\<lparr>trace := trace c @ [LogError ''Max reconnection attempts reached'']\<rparr>)"
    using assms by (simp add: handle_reconnect_exhausted)
next
  assume "reconnect_attempts c = 0"
  then show "connect (ConnectRaises # ConnectRaises # ConnectRaises # ConnectRaises #
                    ConnectRaises # ConnectRaises # outs) c =
             Some (c\<lparr>connected := False, reconnect_attempts := 5,
                     trace := trace c @
                       [LogError ''Failed to connect to DhanHQ'', LogReconnecting 2 1, Sleep 2,
                        LogError ''Failed to connect to DhanHQ'', LogReconnecting 4 2, Sleep 4,
                        LogError ''Failed to connect to DhanHQ'', LogReconnecting 8 3, Sleep 8,
                        LogError ''Failed to connect to DhanHQ'', LogReconnecting 16 4, Sleep 16,
                        LogError ''Failed to connect to DhanHQ'', LogReconnecting 30 5, Sleep 30,
                        LogError ''Failed to connect to DhanHQ'',
                        LogError ''Max reconnection attempts reached'']\<rparr>)"
    using assms
    by (simp add: connect_raises handle_reconnect_retry handle_reconnect_exhausted
        del: connect.simps)
next
  show "connect (ConnectOk SendRaises # outs) c =
           connect outs
             (c\<lparr>connected := False, reconnect_attempts := 1,
                trace := trace c @
                  [LogInfo ''Connected to DhanHQ WebSocket'',
                   LogError ''Failed to connect to DhanHQ'',
                   LogReconnecting 2 1, Sleep 2]\<rparr>)"
    using assms
    by (simp add: connect_send_raises handle_reconnect_retry del: connect.simps)
qed

theorem reconnect_backoff_witness:
  "handle_reconnect [ConnectOk SendOk] (init_client\<lparr>reconnect_attempts := 4\<rparr>) =
     Some \<lparr>connected = True, reconnect_attempts = 0, max_reconnect_attempts = 5,
           trace = [LogReconnecting 30 5, Sleep 30, LogInfo ''Connected to DhanHQ WebSocket'',
                    SendSubscribe, LogInfo ''Subscribed to market depth'']\<rparr>
   \<and> handle_reconnect [ConnectOk SendOk] (init_client\<lparr>reconnect_attempts := 5\<rparr>) =
     Some \<lparr>connected = False, reconnect_attempts = 5, max_reconnect_attempts = 5,
           trace = [LogError ''Max reconnection attempts reached'']\<rparr>
   \<and> connect [ConnectRaises, ConnectRaises, ConnectRaises, ConnectRaises, ConnectRaises,
               ConnectRaises, ConnectOk SendOk] init_client =
     Some \<lparr>connected = False, reconnect_attempts = 5, max_reconnect_attempts = 5,
           trace =
             [LogError ''Failed to connect to DhanHQ'', LogReconnecting 2 1, Sleep 2,
              LogError ''Failed to connect to DhanHQ'', LogReconnecting 4 2, Sleep 4,
              LogError ''Failed to connect to DhanHQ'', LogReconnecting 8 3, Sleep 8,
              LogError ''Failed to connect to DhanHQ'', LogReconnecting 16 4, Sleep 16,
              LogError ''Failed to connect to DhanHQ'', LogReconnecting 30 5, Sleep 30,
              LogError ''Failed to connect to DhanHQ'',
              LogError ''Max reconnection attempts reached'']\<rparr>
   \<and> connect [ConnectOk SendRaises, ConnectOk SendOk] (init_client\<lparr>reconnect_attempts := 4\<rparr>) =
     Some \<lparr>connected = True, reconnect_attempts = 0, max_reconnect_attempts = 5,
           trace = [LogInfo ''Connected to DhanHQ WebSocket'',
                    LogError ''Failed to connect to DhanHQ'', LogReconnecting 2 1, Sleep 2,
                    LogInfo ''Connected to DhanHQ WebSocket'', SendSubscribe,
                    LogInfo ''Subscribed to market depth'']\<rparr>"
  using reconnect_backoff [of "init_client\<lparr>reconnect_attempts := 4\<rparr>" 5 "[ConnectOk SendOk]"]
    reconnect_backoff [of "init_client\<lparr>reconnect_attempts := 5\<rparr>" 5 "[ConnectOk SendOk]"]
    reconnect_backoff [of init_client 1 "[ConnectOk SendOk]"]
  by (simp add: init_client_def subscribe_market_depth_def emit_def)

lemma attempts_never_lowered:
  "(\<forall>c c'. set outs \<subseteq> {ConnectRaises} \<longrightarrow> connect outs c = Some c' \<longrightarrow>
       reconnect_attempts c \<le> reconnect_attempts c') \<and>
   (\<forall>c c'. set outs \<subseteq> {ConnectRaises} \<longrightarrow> handle_reconnect outs c = Some c' \<longrightarrow>
       reconnect_attempts c \<le> reconnect_attempts c')"
proof (induction outs)
  case Nil
  show ?case
    by (auto simp: handle_reconnect.simps [of "[]"] Let_def emit_def split: if_splits)
next
  case (Cons out outs)
  have hr: "reconnect_attempts c \<le> reconnect_attempts c'"
    if "set outs \<subseteq> {ConnectRaises}" "handle_reconnect outs c = Some c'" for c c'
    using Cons that by blast
  have co: "reconnect_attempts c \<le> reconnect_attempts c'"
    if "set (out # outs) \<subseteq> {ConnectRaises}" "connect (out # outs) c = Some c'" for c c'
  proof -
    from that have "out = ConnectRaises" "set outs \<subseteq> {ConnectRaises}"
      by auto
    with that(2)
      hr [of "(emit (LogError ''Failed to connect to DhanHQ'') c)\<lparr>connected := False\<rparr>" c']
    show ?thesis
      by (simp add: emit_def)
  qed
  have "reconnect_attempts c \<le> reconnect_attempts c'"
    if "set (out # outs) \<subseteq> {ConnectRaises}" "handle_reconnect (out # outs) c = Some c'"
    for c c'
  proof (cases "reconnect_attempts c < max_reconnect_attempts c")
    case True
    then have "connect (out # outs)
       (c\<lparr>reconnect_attempts := Suc (reconnect_attempts c),
          trace := trace c @
            [LogReconnecting (min (2 ^ Suc (reconnect_attempts c)) 30)
               (Suc (reconnect_attempts c)),
             Sleep (min (2 ^ Suc (reconnect_attempts c)) 30)]\<rparr>) = Some c'"
      using that(2) by (simp add: handle_reconnect_retry)
    from co [OF that(1) this] show ?thesis
      by simp
  next
    case False
    then show ?thesis
      using that(2) by (auto simp: handle_reconnect_exhausted)
  qed
  with co show ?case
    by blast
qed

text \<open>
  C9, as stated, fails: the transport opens, the subscribe message cannot be sent, and the
  counter, which stood at 3, is reset all the same. The next attempt is logged as attempt
  1 with a delay of 2, and five more attempts are made; no subscribe message was ever sent.
\<close>

theorem counter_reset_without_subscribe_counterexample:
  "connect [ConnectOk SendRaises, ConnectRaises, ConnectRaises, ConnectRaises, ConnectRaises,
            ConnectRaises]
     \<lparr>connected = False, reconnect_attempts = 3, max_reconnect_attempts = 5, trace = []\<rparr> =
   Some \<lparr>connected = False, reconnect_attempts = 5, max_reconnect_attempts = 5,
         trace =
           [LogInfo ''Connected to DhanHQ WebSocket'',
            LogError ''Failed to connect to DhanHQ'', LogReconnecting 2 1, Sleep 2,
            LogError ''Failed to connect to DhanHQ'', LogReconnecting 4 2, Sleep 4,
            LogError ''Failed to connect to DhanHQ'', LogReconnecting 8 3, Sleep 8,
            LogError ''Failed to connect to DhanHQ'', LogReconnecting 16 4, Sleep 16,
            LogError ''Failed to connect to DhanHQ'', LogReconnecting 30 5, Sleep 30,
            LogError ''Failed to connect to DhanHQ'',
            LogError ''Max reconnection attempts reached'']\<rparr>"
  by (simp add: subscribe_market_depth_def emit_def Let_def handle_reconnect.simps)

text \<open>
  C9, amended. \<open>connect\<close> sets the counter to 0 as soon as the transport connection is
  open, before the subscription is attempted and whatever becomes of it: the counter is 0
  when the subscribe message was sent, when no symbol information was found and nothing
  was sent, and when the send raised and \<open>handle_reconnect\<close> takes over. Nothing else
  resets it. A connection attempt that fails to open the transport hands the counter on
  unchanged; \<open>handle_reconnect\<close> raises it by one when it retries and leaves it alone
  when it gives up; the subscription, the message dispatch and the listen loop do not
  touch it. A run whose attempts all fail to open the transport therefore never lowers
  the counter.
\<close>

theorem counter_reset_on_transport_open:
  "(set outs \<subseteq> {ConnectRaises} \<and> connect outs c = Some c' \<longrightarrow>
      reconnect_attempts c \<le> reconnect_attempts c')
   \<and> (set outs \<subseteq> {ConnectRaises} \<and> handle_reconnect outs c = Some c'' \<longrightarrow>
      reconnect_attempts c \<le> reconnect_attempts c'')
   \<and> connect (ConnectOk SendOk # outs) c =
        Some (c\<lparr>connected := True, reconnect_attempts := 0,
                trace := trace c @ [LogInfo ''Connected to DhanHQ WebSocket'', SendSubscribe,
                                    LogInfo ''Subscribed to market depth'']\<rparr>)
   \<and> connect (ConnectOk UnknownSymbol # outs) c =
        Some (c\<lparr>connected := True, reconnect_attempts := 0,
                trace := trace c @ [LogInfo ''Connected to DhanHQ WebSocket'',
                                    LogError ''Unknown symbol'']\<rparr>)
   \<and> connect (ConnectOk SendRaises # outs) c =
        handle_reconnect outs
          (c\<lparr>reconnect_attempts := 0,
             trace := trace c @ [LogInfo ''Connected to DhanHQ WebSocket'',
                                 LogError ''Failed to connect to DhanHQ''],
             connected := False\<rparr>)
   \<and> connect (ConnectRaises # outs) c =
        handle_reconnect outs
          (c\<lparr>connected := False,
             trace := trace c @ [LogError ''Failed to connect to DhanHQ'']\<rparr>)
   \<and> (reconnect_attempts c < max_reconnect_attempts c \<longrightarrow>
        handle_reconnect outs c =
          connect outs
            (c\<lparr>reconnect_attempts := Suc (reconnect_attempts c),
               trace := trace c @
                 [LogReconnecting (min (2 ^ Suc (reconnect_attempts c)) 30)
                    (Suc (reconnect_attempts c)),
                  Sleep (min (2 ^ Suc (reconnect_attempts c)) 30)]\<rparr>))
   \<and> (\<not> reconnect_attempts c < max_reconnect_attempts c \<longrightarrow>
        handle_reconnect outs c =
          Some (c\<lparr>trace := trace c @ [LogError ''Max reconnection attempts reached'']\<rparr>))
   \<and> (subscribe_market_depth sub c = Inr c2 \<longrightarrow>
        reconnect_attempts c2 = reconnect_attempts c)
   \<and> reconnect_attempts (fst (process_message json_loads h message (c, g))) =
        reconnect_attempts c
   \<and> (connected c \<longrightarrow>
        listen json_loads h (RecvConnectionClosed outs # rs) (c, g) =
          (case handle_reconnect outs
                  (c\<lparr>trace := trace c @ [LogWarning ''DhanHQ WebSocket connection closed''],
                     connected := False\<rparr>) of
             None \<Rightarrow> None
           | Some c3 \<Rightarrow> listen json_loads h rs (c3, g)) \<and>
        listen json_loads h (Received message # rs) (c, g) =
          listen json_loads h rs (process_message json_loads h message (c, g)) \<and>
        listen json_loads h (RecvRaises # rs) (c, g) =
          listen json_loads h rs
            (c\<lparr>trace := trace c @ [LogError ''Error processing message'']\<rparr>, g))"
proof -
  have "connect (ConnectOk SendOk # outs) c =
        Some (c\<lparr>connected := True, reconnect_attempts := 0,
                trace := trace c @ [LogInfo ''Connected to DhanHQ WebSocket'', SendSubscribe,
                                    LogInfo ''Subscribed to market depth'']\<rparr>)"
    by (simp add: subscribe_market_depth_def emit_def Let_def)
  moreover have "connect (ConnectOk UnknownSymbol # outs) c =
        Some (c\<lparr>connected := True, reconnect_attempts := 0,
                trace := trace c @ [LogInfo ''Connected to DhanHQ WebSocket'',
                                    LogError ''Unknown symbol'']\<rparr>)"
    by (simp add: subscribe_market_depth_def emit_def Let_def)
  moreover have "connected c \<longrightarrow>
        listen json_loads h (RecvConnectionClosed outs # rs) (c, g) =
          (case handle_reconnect outs
                  (c\<lparr>trace := trace c @ [LogWarning ''DhanHQ WebSocket connection closed''],
                     connected := False\<rparr>) of
             None \<Rightarrow> None
           | Some c3 \<Rightarrow> listen json_loads h rs (c3, g)) \<and>
        listen json_loads h (Received message # rs) (c, g) =
          listen json_loads h rs (process_message json_loads h message (c, g)) \<and>
        listen json_loads h (RecvRaises # rs) (c, g) =
          listen json_loads h rs
            (c\<lparr>trace := trace c @ [LogError ''Error processing message'']\<rparr>, g)"
    by (simp add: emit_def)
  moreover note connect_send_raises [of outs c] connect_raises [of outs c]
    handle_reconnect_retry [of c outs] handle_reconnect_exhausted [of c outs]
    subscribe_keeps_counter [of sub c c2]
    process_message_keeps_counter [of json_loads h message c g]
  ultimately show ?thesis
    using attempts_never_lowered [of outs] by blast
qed

theorem counter_reset_on_transport_open_witness:
  "set [ConnectRaises, ConnectRaises, ConnectRaises] \<subseteq> {ConnectRaises}
   \<and> connect [ConnectRaises, ConnectRaises, ConnectRaises]
       \<lparr>connected = True, reconnect_attempts = 3, max_reconnect_attempts = 5, trace = []\<rparr> =
     Some \<lparr>connected = False, reconnect_attempts = 5, max_reconnect_attempts = 5,
           trace = [LogError ''Failed to connect to DhanHQ'', LogReconnecting 16 4, Sleep 16,
                    LogError ''Failed to connect to DhanHQ'', LogReconnecting 30 5, Sleep 30,
                    LogError ''Failed to connect to DhanHQ'',
                    LogError ''Max reconnection attempts reached'']\<rparr>
   \<and> handle_reconnect [ConnectRaises, ConnectRaises, ConnectRaises]
       \<lparr>connected = True, reconnect_attempts = 3, max_reconnect_attempts = 5, trace = []\<rparr> =
     Some \<lparr>connected = False, reconnect_attempts = 5, max_reconnect_attempts = 5,
           trace = [LogReconnecting 16 4, Sleep 16,
                    LogError ''Failed to connect to DhanHQ'', LogReconnecting 30 5, Sleep 30,
                    LogError ''Failed to connect to DhanHQ'',
                    LogError ''Max reconnection attempts reached'']\<rparr>
   \<and> (3::nat) \<le> 5
   \<and> handle_reconnect [ConnectOk SendOk]
       \<lparr>connected = False, reconnect_attempts = 5, max_reconnect_attempts = 5, trace = []\<rparr> =
     Some \<lparr>connected = False, reconnect_attempts = 5, max_reconnect_attempts = 5,
           trace = [LogError ''Max reconnection attempts reached'']\<rparr>
   \<and> subscribe_market_depth SendOk
       \<lparr>connected = True, reconnect_attempts = 3, max_reconnect_attempts = 5, trace = []\<rparr> =
     Inr \<lparr>connected = True, reconnect_attempts = 3, max_reconnect_attempts = 5,
           trace = [SendSubscribe, LogInfo ''Subscribed to market depth'']\<rparr>"
  using counter_reset_on_transport_open
    [of "[ConnectRaises, ConnectRaises, ConnectRaises]"
        "\<lparr>connected = True, reconnect_attempts = 3, max_reconnect_attempts = 5, trace = []\<rparr>"
        "\<lparr>connected = False, reconnect_attempts = 5, max_reconnect_attempts = 5,
           trace = [LogError ''Failed to connect to DhanHQ'', LogReconnecting 16 4, Sleep 16,
                    LogError ''Failed to connect to DhanHQ'', LogReconnecting 30 5, Sleep 30,
                    LogError ''Failed to connect to DhanHQ'',
                    LogError ''Max reconnection attempts reached'']\<rparr>"
        "\<lparr>connected = False, reconnect_attempts = 5, max_reconnect_attempts = 5,
           trace = [LogReconnecting 16 4, Sleep 16,
                    LogError ''Failed to connect to DhanHQ'', LogReconnecting 30 5, Sleep 30,
                    LogError ''Failed to connect to DhanHQ'',
                    LogError ''Max reconnection attempts reached'']\<rparr>"
        SendOk
        "\<lparr>connected = True, reconnect_attempts = 3, max_reconnect_attempts = 5,
           trace = [SendSubscribe, LogInfo ''Subscribed to market depth'']\<rparr>"]
    counter_reset_on_transport_open
    [of "[ConnectOk SendOk]"
        "\<lparr>connected = False, reconnect_attempts = 5, max_reconnect_attempts = 5, trace = []\<rparr>"]
  by (simp add: emit_def Let_def handle_reconnect.simps subscribe_market_depth_def)

text \<open>
  C8. A message that \<open>json.loads\<close> cannot decode is answered with one error log line and
  nothing else: the client stays connected, the module globals are untouched, and
  \<open>listen\<close> goes on with the following messages exactly as it would have from that state,
  so the next message is handed to \<open>process_message\<close> as usual.
\<close>

theorem undecodable_message_is_dropped:
  assumes "json_loads message = None" and "connected c"
  shows "process_message json_loads h message (c, g) =
           (c\<lparr>trace := trace c @ [LogError ''Invalid JSON received'']\<rparr>, g)
       \<and> connected (fst (process_message json_loads h message (c, g)))
       \<and> listen json_loads h (Received message # rs) (c, g) =
           listen json_loads h rs
             (c\<lparr>trace := trace c @ [LogError ''Invalid JSON received'']\<rparr>, g)
       \<and> listen json_loads h (Received message # Received message' # rs) (c, g) =
           listen json_loads h rs
             (process_message json_loads h message'
                (c\<lparr>trace := trace c @ [LogError ''Invalid JSON received'']\<rparr>, g))"
  using assms by (simp add: process_message_def emit_def)

theorem undecodable_message_is_dropped_witness:
  "listen (\<lambda>s. if s = ''{oops'' then None else Some (JObject [(''type'', JString ''tick'')]))
     \<lparr>process_market_depth = (\<lambda>data g. g), process_tick = (\<lambda>data g. Suc g),
       process_quote = (\<lambda>data g. g)\<rparr>
     [Received ''{oops'', Received ''tick'']
     (init_client\<lparr>connected := True\<rparr>, 0 :: nat) =
   Some (init_client\<lparr>connected := True, trace := [LogError ''Invalid JSON received'']\<rparr>, 1)"
  using undecodable_message_is_dropped
    [of "\<lambda>s. if s = ''{oops'' then None else Some (JObject [(''type'', JString ''tick'')])"
        "''{oops''" "init_client\<lparr>connected := True\<rparr>"
        "\<lparr>process_market_depth = (\<lambda>data g. g), process_tick = (\<lambda>data g. Suc g),
          process_quote = (\<lambda>data g. g)\<rparr>"
        "0 :: nat" "[]" "''tick''"]
  by (simp add: init_client_def process_message_def json_get_def)

section \<open>Properties of the symbol manager\<close>

lemma collect_matches_pure:
  "(\<And>e. e \<in> set cache \<Longrightarrow> matches q e = Inr (is_match q e)) \<Longrightarrow>
   collect_matches q cache = Inr (map to_result (filter (is_match q) cache))"
  by (induction cache) simp_all

lemma relevance_keys_pure:
  "(\<And>x. x \<in> set xs \<Longrightarrow> relevance q x = Inr (rank q x)) \<Longrightarrow>
   relevance_keys q xs = Inr (map (rank q) xs)"
  by (induction xs) simp_all

lemma insort_key_zip:
  "\<forall>p \<in> set ps. fst p = f (snd p) \<Longrightarrow>
   map snd (insort_key fst (f x, x) ps) = insort_key f x (map snd ps) \<and>
   (\<forall>p \<in> set (insort_key fst (f x, x) ps). fst p = f (snd p))"
  by (induction ps) auto

lemma sort_key_zip_aux:
  "map snd (sort_key fst (zip (map f xs) xs)) = sort_key f xs \<and>
   (\<forall>p \<in> set (sort_key fst (zip (map f xs) xs)). fst p = f (snd p))"
proof (induction xs)
  case Nil
  show ?case by simp
next
  case (Cons x xs)
  then show ?case
    using insort_key_zip [of "sort_key fst (zip (map f xs) xs)" f x] by simp
qed

lemma sort_key_zip: "map snd (sort_key fst (zip (map f xs) xs)) = sort_key f xs"
  using sort_key_zip_aux by blast

lemma sort_key_const: "(\<And>x. x \<in> set xs \<Longrightarrow> f x = c) \<Longrightarrow> sort_key f xs = xs"
proof (induction xs)
  case Nil
  show ?case by simp
next
  case (Cons x xs)
  then have "sort_key f xs = xs" by simp
  then show ?case using Cons.prems by (cases xs) simp_all
qed

lemma matches_string_fields:
  "name info \<noteq> PyNone \<Longrightarrow> sector info \<noteq> PyNone \<Longrightarrow>
   matches q (symbol, info) = Inr (is_match q (symbol, info))"
  by (cases "name info"; cases "sector info")
     (simp_all add: matches_def is_match_def upper_of_def get_or_def text_of_def upper_def)

lemma relevance_string_name:
  "name info \<noteq> PyNone \<Longrightarrow>
   relevance q (to_result (symbol, info)) = Inr (rank q (to_result (symbol, info)))"
  by (cases "name info")
     (simp_all add: relevance_def rank_def to_result_def upper_of_def get_or_def text_of_def upper_def)

lemma ranked_matches_pure:
  assumes "string_fields cache"
  shows "ranked_matches q cache =
     Inr (sort_key (rank q) (map to_result (filter (is_match q) cache)))"
proof -
  have m: "matches q e = Inr (is_match q e)" if "e \<in> set cache" for e
    using assms that
    by (cases e) (auto simp: string_fields_def list_all_iff intro: matches_string_fields)
  have r: "relevance q x = Inr (rank q x)"
    if "x \<in> set (map to_result (filter (is_match q) cache))" for x
  proof -
    from that obtain e where "e \<in> set cache" "x = to_result e"
      by auto
    then show ?thesis
      using assms
      by (cases e) (auto simp: string_fields_def list_all_iff intro: relevance_string_name)
  qed
  have c: "collect_matches q cache = Inr (map to_result (filter (is_match q) cache))"
    by (rule collect_matches_pure) (rule m)
  have k: "relevance_keys q (map to_result (filter (is_match q) cache)) =
      Inr (map (rank q) (map to_result (filter (is_match q) cache)))"
    by (rule relevance_keys_pure) (rule r)
  show ?thesis
    unfolding ranked_matches_def c k sum.case sort_key_zip ..
qed


lemma matches_empty: "matches [] e = Inr (is_match [] e)"
  by (cases e) (simp add: matches_def is_match_def)

lemma relevance_empty: "relevance [] x = Inr (rank [] x)"
  by (simp add: relevance_def rank_def)

lemma upper_Nil: "upper [] = []"
  by (simp add: upper_def)

lemma is_match_empty: "is_match [] e"
  by (cases e) (simp add: is_match_def)

lemma ranked_matches_empty_query:
  "ranked_matches [] cache = Inr (sort_key (rank []) (map to_result cache))"
proof -
  have c: "collect_matches [] cache = Inr (map to_result (filter (is_match []) cache))"
    by (rule collect_matches_pure) (rule matches_empty)
  have f: "filter (is_match []) cache = cache"
    by (simp add: is_match_empty)
  have k: "relevance_keys [] (map to_result cache) = Inr (map (rank []) (map to_result cache))"
    by (rule relevance_keys_pure) (rule relevance_empty)
  show ?thesis
    unfolding ranked_matches_def c f k sum.case sort_key_zip ..
qed

lemma search_symbols_empty_query:
  "search_symbols [] limit cache =
     Inr (py_take limit (sort_key (rank []) (map to_result cache)))"
  by (simp add: search_symbols_def upper_Nil ranked_matches_empty_query)

text \<open>
  C5. When the symbol, in upper case, is not in the in-memory cache and the mock lookup
  and both HTTP lookups fail, \<open>get_symbol_info\<close> returns \<open>None\<close>, appends the symbol with
  status \<open>unknown\<close> to the table \<open>symbol_requests\<close> (when the database takes the write)
  and leaves the in-memory cache and the table \<open>symbols\<close> as they were. A later call for
  the same symbol therefore asks the lookup services again and returns what they then
  answer.
\<close>

theorem unknown_symbol_not_cached:
  assumes "dict_get (symbols_cache m) (upper symbol) = None"
    and "fetch_symbol_from_api (upper symbol) = None"
    and "dhanhq_api env (upper symbol) = None"
    and "nse_api env (upper symbol) = None"
  shows "get_symbol_info env symbol m =
           (None,
            m\<lparr>db_symbol_requests :=
                 (if db_ok env then db_symbol_requests m @ [(upper symbol, ''unknown'')]
                  else db_symbol_requests m)\<rparr>)
       \<and> symbols_cache (snd (get_symbol_info env symbol m)) = symbols_cache m
       \<and> db_symbols (snd (get_symbol_info env symbol m)) = db_symbols m
       \<and> (dhanhq_api env2 (upper symbol) = Some info \<longrightarrow>
            fst (get_symbol_info env2 symbol (snd (get_symbol_info env symbol m))) = Some info)
       \<and> (dhanhq_api env2 (upper symbol) = None \<and> nse_api env2 (upper symbol) = Some info \<longrightarrow>
            fst (get_symbol_info env2 symbol (snd (get_symbol_info env symbol m))) = Some info)"
proof -
  have first: "get_symbol_info env symbol m =
           (None,
            m\<lparr>db_symbol_requests :=
                 (if db_ok env then db_symbol_requests m @ [(upper symbol, ''unknown'')]
                  else db_symbol_requests m)\<rparr>)"
    using assms
    by (simp add: get_symbol_info_def Let_def fetch_symbol_alternative_def
        log_unknown_symbol_def)
  have again: "fst (get_symbol_info env2 symbol
                  (m\<lparr>db_symbol_requests := rs\<rparr>)) = fetch_symbol_alternative env2 (upper symbol)"
    for rs
    using assms(1,2)
    by (simp add: get_symbol_info_def Let_def split: option.splits)
  show ?thesis
    unfolding first
    by (simp add: again fetch_symbol_alternative_def)
qed

theorem unknown_symbol_not_cached_witness:
  "get_symbol_info
     \<lparr>dhanhq_api = Map.empty, nse_api = Map.empty, db_ok = True, current_datetime = 2\<rparr>
     ''zzz'' (init_manager [] []) =
   (None, \<lparr>symbols_cache = [], db_symbols = [], db_symbol_requests = [(''ZZZ'', ''unknown'')]\<rparr>)
   \<and> fst (get_symbol_info
        \<lparr>dhanhq_api = [''ZZZ'' \<mapsto> \<lparr>token = Str ''77'', name = Str ''ZZZ LTD'', sector = Str '''',
                                     market_cap = Str ''''\<rparr>],
          nse_api = Map.empty, db_ok = True, current_datetime = 3\<rparr>
        ''zzz''
        \<lparr>symbols_cache = [], db_symbols = [], db_symbol_requests = [(''ZZZ'', ''unknown'')]\<rparr>) =
     Some \<lparr>token = Str ''77'', name = Str ''ZZZ LTD'', sector = Str '''', market_cap = Str ''''\<rparr>"
  using unknown_symbol_not_cached
    [of "init_manager [] []" "''zzz''"
        "\<lparr>dhanhq_api = Map.empty, nse_api = Map.empty, db_ok = True, current_datetime = 2\<rparr>"
        "\<lparr>dhanhq_api = [''ZZZ'' \<mapsto> \<lparr>token = Str ''77'', name = Str ''ZZZ LTD'', sector = Str '''',
                                     market_cap = Str ''''\<rparr>],
          nse_api = Map.empty, db_ok = True, current_datetime = 3\<rparr>"
        "\<lparr>token = Str ''77'', name = Str ''ZZZ LTD'', sector = Str '''', market_cap = Str ''''\<rparr>"]
  by (simp add: init_manager_def load_cached_symbols_def upper_def upper_char_def
      fetch_symbol_from_api_def mock_symbols_def get_symbol_info_def
      fetch_symbol_alternative_def log_unknown_symbol_def Let_def)














section \<open>Properties of the viewer endpoint\<close>

lemma json_get_object:
  "json_get (JObject kvs) key dflt = Inr (case dict_get kvs key of None \<Rightarrow> dflt | Some v \<Rightarrow> v)"
  by (simp add: json_get_def)

lemma search_symbols_json_pure:
  "string_fields cache \<Longrightarrow>
   search_symbols_json (JString q) (JInt n) cache =
     Inr (py_take n (sort_key (rank (upper q)) (map to_result (filter (is_match (upper q)) cache))))"
  by (simp add: search_symbols_json_def ranked_matches_pure py_slice_def)

lemma search_symbols_json_typed:
  "search_symbols_json (JString q) (JInt n) cache = search_symbols q n cache"
  by (simp add: search_symbols_json_def search_symbols_def py_slice_def split: sum.splits)








lemma rank_empty_query: "r_symbol x \<noteq> [] \<Longrightarrow> rank [] x = 1"
  by (simp add: rank_def)

text \<open>
  C10. The empty query matches every entry of the cache, whatever its fields hold, so the
  search returns \<open>results[:limit]\<close> of a list of all cached symbols; when no cached symbol
  is itself the empty string and the limit is not negative, these are the first \<open>limit\<close>
  entries of the cache in its own order. A \<open>search_symbols\<close> command without the key
  \<open>query\<close> is answered as a search for the empty string (in main_v2.py when the Supabase
  search is not available).
\<close>

theorem empty_query_matches_everything:
  "(\<exists>res. search_symbols '''' limit cache = Inr (py_take limit res) \<and>
          length res = length cache \<and> set res = to_result ` set cache)
   \<and> ('''' \<notin> fst ` set cache \<and> 0 \<le> limit \<longrightarrow>
        search_symbols '''' limit cache = Inr (take (nat limit) (map to_result cache)))
   \<and> (json_loads message = Some (JObject kvs) \<and>
        dict_get kvs ''type'' = Some (JString ''search_symbols'') \<and>
        dict_get kvs ''query'' = None \<and>
        (dict_get kvs ''limit'' = None \<and> n = 20 \<or> dict_get kvs ''limit'' = Some (JInt n)) \<longrightarrow>
        (\<exists>results. search_symbols '''' n (symbols_cache (manager st)) = Inr results \<and>
           handle_message json_loads env st message =
             Inr [SymbolSearchResults (JString '''') results] \<and>
           (supabase_ready env2 = None \<longrightarrow>
              handle_message_v2 json_loads env2 st message =
                Inr [SymbolSearchResults (JString '''') results])))"
proof (intro conjI impI)
  let ?res = "sort_key (rank []) (map to_result cache)"
  have "search_symbols '''' limit cache = Inr (py_take limit ?res)"
    by (rule search_symbols_empty_query)
  moreover have "length ?res = length cache" "set ?res = to_result ` set cache"
    by simp_all
  ultimately show "\<exists>res. search_symbols '''' limit cache = Inr (py_take limit res) \<and>
          length res = length cache \<and> set res = to_result ` set cache"
    by blast
next
  assume a: "'''' \<notin> fst ` set cache \<and> 0 \<le> limit"
  have "rank [] x = 1" if "x \<in> set (map to_result cache)" for x
  proof -
    from that obtain e where e: "e \<in> set cache" "x = to_result e"
      by auto
    with a have "fst e \<noteq> []"
      by (metis imageI)
    moreover obtain symbol info where "e = (symbol, info)"
      by (cases e)
    ultimately show ?thesis
      using e(2) by (simp add: rank_empty_query to_result_def)
  qed
  then have "sort_key (rank []) (map to_result cache) = map to_result cache"
    by (rule sort_key_const)
  then show "search_symbols '''' limit cache = Inr (take (nat limit) (map to_result cache))"
    using a by (simp add: search_symbols_empty_query py_take_def)
next
  assume a: "json_loads message = Some (JObject kvs) \<and>
        dict_get kvs ''type'' = Some (JString ''search_symbols'') \<and>
        dict_get kvs ''query'' = None \<and>
        (dict_get kvs ''limit'' = None \<and> n = 20 \<or> dict_get kvs ''limit'' = Some (JInt n))"
  then have l: "(case dict_get kvs ''limit'' of None \<Rightarrow> JInt 20 | Some v \<Rightarrow> v) = JInt n"
    by auto
  let ?cache = "symbols_cache (manager st)"
  let ?results = "py_take n (sort_key (rank []) (map to_result ?cache))"
  have s: "search_symbols '''' n ?cache = Inr ?results"
    by (rule search_symbols_empty_query)
  have j: "search_symbols_json (JString '''') (JInt n) ?cache = Inr ?results"
    by (simp add: search_symbols_json_typed s)
  have v1: "handle_message json_loads env st message =
      Inr [SymbolSearchResults (JString '''') ?results]"
    using a l by (simp add: handle_message_def json_get_object search_command_def j)
  have v2: "supabase_ready env2 = None \<longrightarrow>
      handle_message_v2 json_loads env2 st message =
        Inr [SymbolSearchResults (JString '''') ?results]"
    using a l by (simp add: handle_message_v2_def json_get_object search_command_v2_def j)
  from s v1 v2 show "\<exists>results. search_symbols '''' n (symbols_cache (manager st)) = Inr results \<and>
           handle_message json_loads env st message =
             Inr [SymbolSearchResults (JString '''') results] \<and>
           (supabase_ready env2 = None \<longrightarrow>
              handle_message_v2 json_loads env2 st message =
                Inr [SymbolSearchResults (JString '''') results])"
    by (intro exI [where x = "?results"]) simp
qed

theorem empty_query_matches_everything_witness:
  "'''' \<notin> fst `
      set [(''TCS'', \<lparr>token = Str ''7'', name = Str ''Tata'', sector = PyNone, market_cap = Absent\<rparr>),
           (''INFY'', \<lparr>token = Str ''8'', name = PyNone, sector = Str ''IT'', market_cap = Absent\<rparr>)]
   \<and> search_symbols '''' 1
       [(''TCS'', \<lparr>token = Str ''7'', name = Str ''Tata'', sector = PyNone, market_cap = Absent\<rparr>),
        (''INFY'', \<lparr>token = Str ''8'', name = PyNone, sector = Str ''IT'', market_cap = Absent\<rparr>)] =
     Inr [\<lparr>r_symbol = ''TCS'', r_token = Str ''7'', r_name = Str ''Tata'', r_sector = PyNone,
            r_market_cap = Str ''''\<rparr>]
   \<and> handle_message [''s'' \<mapsto> JObject [(''type'', JString ''search_symbols'')]]
       \<lparr>is_market_hours = True, time_now = 7, get_off_market_data = history_available,
         lookup = \<lparr>dhanhq_api = Map.empty, nse_api = Map.empty, db_ok = True,
                    current_datetime = 7\<rparr>,
         subscribe = SendOk\<rparr>
       \<lparr>current_symbol = ''RELIANCE'',
         manager = \<lparr>symbols_cache =
                      [(''TCS'', \<lparr>token = Str ''7'', name = Str ''Tata'', sector = PyNone,
                                  market_cap = Absent\<rparr>),
                       (''INFY'', \<lparr>token = Str ''8'', name = PyNone, sector = Str ''IT'',
                                   market_cap = Absent\<rparr>)],
                    db_symbols = [], db_symbol_requests = []\<rparr>,
         feed = init_client\<rparr>
       ''s'' =
     Inr [SymbolSearchResults (JString '''')
            [\<lparr>r_symbol = ''TCS'', r_token = Str ''7'', r_name = Str ''Tata'', r_sector = PyNone,
               r_market_cap = Str ''''\<rparr>,
             \<lparr>r_symbol = ''INFY'', r_token = Str ''8'', r_name = PyNone, r_sector = Str ''IT'',
               r_market_cap = Str ''''\<rparr>]]"
  using empty_query_matches_everything
    [where cache =
        "[(''TCS'', \<lparr>token = Str ''7'', name = Str ''Tata'', sector = PyNone, market_cap = Absent\<rparr>),
          (''INFY'', \<lparr>token = Str ''8'', name = PyNone, sector = Str ''IT'', market_cap = Absent\<rparr>)]"
       and limit = 1
       and json_loads = "[''s'' \<mapsto> JObject [(''type'', JString ''search_symbols'')]]"
       and message = "''s''" and kvs = "[(''type'', JString ''search_symbols'')]" and n = 20
       and st = "\<lparr>current_symbol = ''RELIANCE'',
         manager = \<lparr>symbols_cache =
                      [(''TCS'', \<lparr>token = Str ''7'', name = Str ''Tata'', sector = PyNone,
                                  market_cap = Absent\<rparr>),
                       (''INFY'', \<lparr>token = Str ''8'', name = PyNone, sector = Str ''IT'',
                                   market_cap = Absent\<rparr>)],
                    db_symbols = [], db_symbol_requests = []\<rparr>,
         feed = init_client\<rparr>"]
  by (simp add: handle_message_def json_get_def search_command_def search_symbols_json_def
      search_symbols_def ranked_matches_def py_slice_def py_take_def matches_def relevance_def
      to_result_def get_or_def upper_def sublist_code)

end
